theory Spec2Isabelle
  imports Complex_Main "HOL-Library.Sublist" "HOL-Library.Multiset"
begin

section \<open>Paperly: the aggregation server\<close>

text \<open>
  The server keeps two module variables, \<^verbatim>\<open>cachedPapers\<close> and \<^verbatim>\<open>topicCache\<close>, and serves
  two routes over them: \<^verbatim>\<open>/papers\<close> (fetch from four providers, badge, cache, rank) and
  \<^verbatim>\<open>/related\<close> (TF-IDF neighbours of one paper of the last fetched list). This theory
  embeds both handlers and the helpers they call.

  Conventions of the embedding.
  \<^item> JavaScript strings are modelled as \<open>string\<close> restricted to ASCII: case mapping touches
    the 26 letters only.
  \<^item> Numbers are \<open>int\<close>, \<open>nat\<close> or \<open>real\<close>. The trending score is given twice: over
    exact real arithmetic with \<open>ln\<close> (\<open>trending_score\<close>, which \<open>papers_route\<close> sorts by), and
    over the arithmetic of an engine (\<open>engine_score\<close>), whose rounding and \<^verbatim>\<open>Math.log\<close> are
    parameters. \<^verbatim>\<open>NaN\<close> is \<open>None\<close> of an option type where the code can produce it
    (\<^verbatim>\<open>parseInt\<close>).
  \<^item> A field read from a provider payload is either absent (\<open>None\<close>: \<^verbatim>\<open>undefined\<close> or
    \<^verbatim>\<open>null\<close>) or carries a value of the JSON type the adapter reads it at. The handler
    \<open>papers_handler\<close> drops this for the one field whose type decides whether the
    handler raises, \<^verbatim>\<open>publisher.text\<close> of a Springer record; \<open>papers_route\<close> is that handler
    on exact arithmetic and on payloads where the field is text.
  \<^item> Arrays that are shared and mutated live in an explicit store and are named by
    their address.
  \<^item> An exception is a value \<open>Inl e\<close>; \<^verbatim>\<open>try/catch\<close> is the case distinction on it.
\<close>

subsection \<open>Strings\<close>

definition upper_letters :: string where
  "upper_letters = ''ABCDEFGHIJKLMNOPQRSTUVWXYZ''"

definition lower_letters :: string where
  "lower_letters = ''abcdefghijklmnopqrstuvwxyz''"

definition lower_char :: "char \<Rightarrow> char" where
  "lower_char c = (case map_of (zip upper_letters lower_letters) c of Some d \<Rightarrow> d | None \<Rightarrow> c)"

definition upper_char :: "char \<Rightarrow> char" where
  "upper_char c = (case map_of (zip lower_letters upper_letters) c of Some d \<Rightarrow> d | None \<Rightarrow> c)"

text \<open>\<^verbatim>\<open>s.toLowerCase()\<close> and \<^verbatim>\<open>s.toUpperCase()\<close>.\<close>

definition toLowerCase :: "string \<Rightarrow> string" where
  "toLowerCase s = map lower_char s"

definition toUpperCase :: "string \<Rightarrow> string" where
  "toUpperCase s = map upper_char s"

text \<open>\<^verbatim>\<open>s.includes(sub)\<close>: \<open>sub\<close> occurs in \<open>s\<close> as a contiguous run.\<close>

fun includes_str :: "string \<Rightarrow> string \<Rightarrow> bool" where
  "includes_str [] sub = (sub = [])"
| "includes_str (c # cs) sub = (prefix sub (c # cs) \<or> includes_str cs sub)"

text \<open>\<^verbatim>\<open>s.charAt(0)\<close> (the empty string on an empty \<open>s\<close>) and \<^verbatim>\<open>s.slice(1)\<close>.\<close>

definition charAt0 :: "string \<Rightarrow> string" where
  "charAt0 s = take 1 s"

definition slice1 :: "string \<Rightarrow> string" where
  "slice1 s = drop 1 s"

subsection \<open>Papers, source labels and badges\<close>

record paper =
  title :: string
  summary :: string
  link :: string
  authors :: "string option list"
  source :: string
  year :: int
  citations :: nat
  tags :: "string list"

text \<open>
  \<^verbatim>\<open>normalizeSource(source)\<close>. The argument is \<open>None\<close> for \<^verbatim>\<open>undefined\<close>/\<^verbatim>\<open>null\<close>;
  \<^verbatim>\<open>!source\<close> also holds of the empty string. The parameter is overwritten by its
  lower-cased form before the table is consulted, so the fallthrough works on the
  lower-cased text.
\<close>

definition normalizeSource :: "string option \<Rightarrow> string" where
  "normalizeSource raw =
     (case raw of
        None \<Rightarrow> ''Unknown''
      | Some s0 \<Rightarrow>
          if s0 = [] then ''Unknown''
          else
            let src = toLowerCase s0 in
            if includes_str src ''arxiv'' then ''arXiv''
            else if includes_str src ''openalex'' then ''OpenAlex''
            else if includes_str src ''ieee'' then ''IEEE''
            else if includes_str src ''springer'' then ''Springer''
            else if includes_str src ''elsevier'' then ''Elsevier''
            else if includes_str src ''acm'' then ''ACM''
            else toUpperCase (charAt0 src) @ slice1 src)"

text \<open>
  \<^verbatim>\<open>assignBadges(p)\<close>; \<open>currentYear\<close> is the reading of \<^verbatim>\<open>new Date().getFullYear()\<close>.
\<close>

definition assignBadges :: "int \<Rightarrow> paper \<Rightarrow> string list" where
  "assignBadges currentYear p =
     (if 50 \<le> citations p then [''Highly Cited''] else []) @
     (if includes_str (toLowerCase (source p)) ''arxiv'' then [''Open Access''] else []) @
     (if currentYear - 1 \<le> year p then [''New''] else [])"

text \<open>
  \<^verbatim>\<open>s.trim()\<close> and \<^verbatim>\<open>parseInt(s)\<close>. White space is the ASCII part of what JavaScript
  strips. \<open>parseInt\<close> skips leading white space, reads a sign, a \<^verbatim>\<open>0x\<close>/\<^verbatim>\<open>0X\<close> prefix
  (radix 16, else 10) and the longest run of digits; with no digit it is \<^verbatim>\<open>NaN\<close> (\<open>None\<close>).
  The value is the exact integer, where JavaScript rounds it to a double.
\<close>

definition is_space :: "char \<Rightarrow> bool" where
  "is_space c \<longleftrightarrow> c \<in> set [CHR 0x09, CHR 0x0A, CHR 0x0B, CHR 0x0C, CHR 0x0D, CHR '' '']"

definition trim :: "string \<Rightarrow> string" where
  "trim s = rev (dropWhile is_space (rev (dropWhile is_space s)))"

definition digit_of :: "nat \<Rightarrow> char \<Rightarrow> nat option" where
  "digit_of radix c =
     (case map_of (zip ''0123456789abcdef'' [0..<16] @ zip ''ABCDEF'' [10..<16]) c of
        None \<Rightarrow> None
      | Some d \<Rightarrow> if d < radix then Some d else None)"

definition digits_value :: "nat \<Rightarrow> string \<Rightarrow> nat" where
  "digits_value radix z =
     foldl (\<lambda>n c. n * radix + (case digit_of radix c of None \<Rightarrow> 0 | Some d \<Rightarrow> d)) 0 z"

definition parseInt :: "string \<Rightarrow> int option" where
  "parseInt inputString =
     (let s = dropWhile is_space inputString;
          sign = (if take 1 s = ''-'' then - 1 else 1);
          s = (if take 1 s = ''-'' \<or> take 1 s = ''+'' then drop 1 s else s);
          hex = (take 2 s = ''0x'' \<or> take 2 s = ''0X'');
          radix = (if hex then 16 else 10);
          s = (if hex then drop 2 s else s);
          z = takeWhile (\<lambda>c. digit_of radix c \<noteq> None) s
      in if z = [] then None else Some (sign * int (digits_value radix z)))"

subsection \<open>Sorting with a comparator\<close>

text \<open>
  \<^verbatim>\<open>xs.sort(cmp)\<close>: the engine's sort is stable; for a comparator that is the
  difference of two keys the result is the stable insertion sort below. \<open>x\<close> is put
  before the first element it does not have to follow (\<open>cmp x y \<le> 0\<close>), and the
  elements are inserted from the right, so equal elements keep their order.
\<close>

fun insert_cmp :: "('a \<Rightarrow> 'a \<Rightarrow> real) \<Rightarrow> 'a \<Rightarrow> 'a list \<Rightarrow> 'a list" where
  "insert_cmp cmp x [] = [x]"
| "insert_cmp cmp x (y # ys) =
     (if cmp x y \<le> 0 then x # y # ys else y # insert_cmp cmp x ys)"

definition array_sort :: "('a \<Rightarrow> 'a \<Rightarrow> real) \<Rightarrow> 'a list \<Rightarrow> 'a list" where
  "array_sort cmp xs = foldr (insert_cmp cmp) xs []"

subsection \<open>Trending order\<close>

text \<open>
  The score the comparator of \<^verbatim>\<open>allPapers.sort\<close> computes for each side. The test
  \<^verbatim>\<open>a.year ? ... : 0\<close> is on the truthiness of the number: every year but 0.
\<close>

definition trending_score :: "int \<Rightarrow> paper \<Rightarrow> real" where
  "trending_score currentYear a =
     ln (real (citations a) + 1) +
     (if year a \<noteq> 0 then real_of_int (currentYear - year a) * (- 0.5) else 0)"

definition trending_cmp :: "int \<Rightarrow> paper \<Rightarrow> paper \<Rightarrow> real" where
  "trending_cmp currentYear a b = trending_score currentYear b - trending_score currentYear a"

text \<open>The score as the specification writes it, for comparison: the recency term is
  guarded by \<open>year > 0\<close>.\<close>

definition spec_trending_score :: "int \<Rightarrow> paper \<Rightarrow> real" where
  "spec_trending_score currentYear a =
     ln (real (citations a) + 1) +
     (if 0 < year a then real_of_int (currentYear - year a) * (- 0.5) else 0)"

text \<open>
  The same score in the arithmetic of a JavaScript engine. A number is a double; every
  arithmetic operation returns the exact result rounded by \<open>rnd\<close>, and \<open>Math_log\<close> is the
  engine's \<^verbatim>\<open>Math.log\<close>. \<open>engine_cmp\<close> is the comparator of \<^verbatim>\<open>allPapers.sort\<close>, whose result
  is the rounded difference of the two scores.
\<close>

record engine =
  rnd :: "real \<Rightarrow> real"
  Math_log :: "real \<Rightarrow> real"

definition engine_score :: "engine \<Rightarrow> int \<Rightarrow> paper \<Rightarrow> real" where
  "engine_score e currentYear a =
     rnd e (Math_log e (rnd e (real (citations a) + 1)) +
            (if year a \<noteq> 0 then rnd e (rnd e (real_of_int (currentYear - year a)) * (- 0.5))
             else 0))"

definition engine_cmp :: "engine \<Rightarrow> int \<Rightarrow> paper \<Rightarrow> paper \<Rightarrow> real" where
  "engine_cmp e currentYear a b =
     rnd e (engine_score e currentYear b - engine_score e currentYear a)"

text \<open>The specification's score, guarded by \<open>year > 0\<close>, in the same arithmetic.\<close>

definition spec_engine_score :: "engine \<Rightarrow> int \<Rightarrow> paper \<Rightarrow> real" where
  "spec_engine_score e currentYear a =
     rnd e (Math_log e (rnd e (real (citations a) + 1)) +
            (if 0 < year a then rnd e (rnd e (real_of_int (currentYear - year a)) * (- 0.5))
             else 0))"

text \<open>
  Two properties of an engine's arithmetic. \<open>keeps_sign\<close>: the rounded difference of
  two numbers of the engine has the sign of their difference, as it has for doubles.
  \<open>order_preserving\<close>: rounding is monotone and leaves 1 as it is, and \<open>Math_log\<close> is
  monotone from 1 on. The engine without rounding has both; so has one whose
  logarithm cannot tell large arguments apart.
\<close>

definition keeps_sign :: "engine \<Rightarrow> bool" where
  "keeps_sign e \<longleftrightarrow> (\<forall>x y. rnd e (rnd e x - rnd e y) \<le> 0 \<longleftrightarrow> rnd e x \<le> rnd e y)"

definition order_preserving :: "engine \<Rightarrow> bool" where
  "order_preserving e \<longleftrightarrow>
     (\<forall>x y. x \<le> y \<longrightarrow> rnd e x \<le> rnd e y) \<and> rnd e 1 = 1 \<and>
     (\<forall>x y. 1 \<le> x \<and> x \<le> y \<longrightarrow> Math_log e x \<le> Math_log e y)"

definition exact_engine :: engine where
  "exact_engine = \<lparr>rnd = (\<lambda>x. x), Math_log = ln\<rparr>"

definition saturating_engine :: engine where
  "saturating_engine = \<lparr>rnd = (\<lambda>x. x), Math_log = (\<lambda>x. ln (min x 1000))\<rparr>"

subsection \<open>Providers and adapters\<close>

datatype exn = NetworkError | TypeError

record request =
  url :: string
  params :: "(string \<times> string) list"

text \<open>\<^verbatim>\<open>x || d\<close> on an optional string (the empty string is falsy) and on an optional
  number with default 0 (0 is falsy).\<close>

definition or_str :: "string option \<Rightarrow> string \<Rightarrow> string" where
  "or_str x d = (case x of None \<Rightarrow> d | Some s \<Rightarrow> if s = [] then d else s)"

definition or_0 :: "'a::zero option \<Rightarrow> 'a" where
  "or_0 x = (case x of None \<Rightarrow> 0 | Some n \<Rightarrow> n)"

text \<open>\<^verbatim>\<open>xs.map(f)\<close> with a callback that may raise: the first exception ends the map.\<close>

fun map_exn :: "('a \<Rightarrow> exn + 'b) \<Rightarrow> 'a list \<Rightarrow> exn + 'b list" where
  "map_exn f [] = Inr []"
| "map_exn f (x # xs) =
     (case f x of
        Inl e \<Rightarrow> Inl e
      | Inr y \<Rightarrow> (case map_exn f xs of Inl e \<Rightarrow> Inl e | Inr ys \<Rightarrow> Inr (y # ys)))"

text \<open>\<^verbatim>\<open>safeFetch(fn)\<close>: the argument is the outcome of running \<^verbatim>\<open>fn\<close>.\<close>

definition safeFetch :: "exn + 'a list \<Rightarrow> 'a list" where
  "safeFetch r = (case r of Inl err \<Rightarrow> [] | Inr v \<Rightarrow> v)"

text \<open>
  OpenAlex. The payload is \<^verbatim>\<open>r.data\<close>; an element of \<^verbatim>\<open>results\<close> may be \<^verbatim>\<open>null\<close>, and reading
  a property of \<^verbatim>\<open>null\<close> or \<^verbatim>\<open>undefined\<close> (\<^verbatim>\<open>p.title\<close>, \<^verbatim>\<open>a.author.display_name\<close>) raises.
\<close>

record openalex_person =
  display_name :: "string option"

record openalex_authorship =
  oa_author :: "openalex_person option"

record openalex_venue =
  venue_display_name :: "string option"

record openalex_work =
  oa_title :: "string option"
  oa_abstract :: "string option"
  oa_id :: "string option"
  oa_authorships :: "openalex_authorship list option"
  oa_host_venue :: "openalex_venue option"
  oa_publication_year :: "int option"
  oa_cited_by_count :: "nat option"

record openalex_data =
  oa_results :: "openalex_work option list option"

definition openalex_request :: "string \<Rightarrow> request" where
  "openalex_request topic =
     \<lparr>url = ''https://api.openalex.org/works'',
      params = [(''search'', topic), (''per_page'', ''5'')]\<rparr>"

definition openalex_paper :: "openalex_work option \<Rightarrow> exn + paper" where
  "openalex_paper elem =
     (case elem of
        None \<Rightarrow> Inl TypeError
      | Some p \<Rightarrow>
          (case (case oa_authorships p of
                   None \<Rightarrow> Inr []
                 | Some as \<Rightarrow>
                     map_exn (\<lambda>a. case oa_author a of
                                     None \<Rightarrow> Inl TypeError
                                   | Some person \<Rightarrow> Inr (display_name person)) as) of
             Inl e \<Rightarrow> Inl e
           | Inr names \<Rightarrow>
               Inr \<lparr>title = or_str (oa_title p) ''No title'',
                    summary = or_str (oa_abstract p) ''No abstract'',
                    link = or_str (oa_id p) ''#'',
                    authors = names,
                    source = normalizeSource
                      (Some (or_str (case oa_host_venue p of
                                       None \<Rightarrow> None
                                     | Some v \<Rightarrow> venue_display_name v) ''OpenAlex'')),
                    year = or_0 (oa_publication_year p),
                    citations = or_0 (oa_cited_by_count p),
                    tags = []\<rparr>))"

definition openalex_fetch :: "(request \<Rightarrow> exn + openalex_data) \<Rightarrow> string \<Rightarrow> exn + paper list" where
  "openalex_fetch get topic =
     (case get (openalex_request topic) of
        Inl e \<Rightarrow> Inl e
      | Inr d \<Rightarrow> map_exn openalex_paper (case oa_results d of None \<Rightarrow> [] | Some rs \<Rightarrow> rs))"

text \<open>
  arXiv. The reply is an Atom feed scanned with regular expressions. An
  \<open>arxiv_entry\<close> stands for one match of the \<^verbatim>\<open><entry>\<close> pattern, given by what the
  patterns for title, summary and id capture inside it (\<open>None\<close> when the pattern does
  not match) and by the captures of the name pattern, in document order. The
  \<^verbatim>\<open>while\<close> loop over the matches pushes one paper per entry.
\<close>

record arxiv_entry =
  ax_title :: "string option"
  ax_summary :: "string option"
  ax_id :: "string option"
  ax_names :: "string list"

definition arxiv_request :: "string \<Rightarrow> request" where
  "arxiv_request topic =
     \<lparr>url = ''http://export.arxiv.org/api/query'',
      params = [(''search_query'', ''all:'' @ topic), (''start'', ''0''), (''max_results'', ''5'')]\<rparr>"

definition arxiv_paper :: "arxiv_entry \<Rightarrow> paper" where
  "arxiv_paper entry =
     \<lparr>title = or_str (map_option trim (ax_title entry)) ''No title'',
      summary = or_str (map_option trim (ax_summary entry)) ''No abstract'',
      link = or_str (map_option trim (ax_id entry)) ''#'',
      authors = map Some (ax_names entry),
      source = ''arXiv'', year = 0, citations = 0, tags = []\<rparr>"

definition arxiv_fetch :: "(request \<Rightarrow> exn + arxiv_entry list) \<Rightarrow> string \<Rightarrow> exn + paper list" where
  "arxiv_fetch get topic =
     (case get (arxiv_request topic) of
        Inl e \<Rightarrow> Inl e
      | Inr entries \<Rightarrow> Inr (map arxiv_paper entries))"

text \<open>Semantic Scholar.\<close>

record sem_author =
  ss_name :: "string option"

record sem_paper =
  ss_title :: "string option"
  ss_abstract :: "string option"
  ss_url :: "string option"
  ss_authors :: "sem_author list option"
  ss_venue :: "string option"
  ss_year :: "int option"
  ss_citationCount :: "nat option"

record sem_data =
  ss_data :: "sem_paper option list option"

definition semantic_request :: "string \<Rightarrow> request" where
  "semantic_request topic =
     \<lparr>url = ''https://api.semanticscholar.org/graph/v1/paper/search'',
      params = [(''query'', topic), (''limit'', ''5''),
                (''fields'', ''title,abstract,url,venue,citationCount,year,authors'')]\<rparr>"

definition semantic_paper :: "sem_paper option \<Rightarrow> exn + paper" where
  "semantic_paper elem =
     (case elem of
        None \<Rightarrow> Inl TypeError
      | Some p \<Rightarrow>
          Inr \<lparr>title = or_str (ss_title p) ''No title'',
               summary = or_str (ss_abstract p) ''No abstract'',
               link = or_str (ss_url p) ''#'',
               authors = (case ss_authors p of None \<Rightarrow> [] | Some as \<Rightarrow> map ss_name as),
               source = normalizeSource (Some (or_str (ss_venue p) ''Semantic Scholar'')),
               year = or_0 (ss_year p),
               citations = or_0 (ss_citationCount p),
               tags = []\<rparr>)"

definition semantic_fetch :: "(request \<Rightarrow> exn + sem_data) \<Rightarrow> string \<Rightarrow> exn + paper list" where
  "semantic_fetch get topic =
     (case get (semantic_request topic) of
        Inl e \<Rightarrow> Inl e
      | Inr d \<Rightarrow> map_exn semantic_paper (case ss_data d of None \<Rightarrow> [] | Some rs \<Rightarrow> rs))"

text \<open>
  Springer (\<^verbatim>\<open>fetchSpringer\<close>). The request carries the key (left out by the HTTP client
  when the environment variable is unset) and the query, nothing else. \<^verbatim>\<open>p.url[0]\<close>
  raises when \<^verbatim>\<open>url\<close> is absent. \<open>springer_text\<close> is a value read at \<^verbatim>\<open>.text\<close>: for a
  plain string that property is absent. The whole body runs inside \<^verbatim>\<open>try\<close>, and
  the \<^verbatim>\<open>catch\<close> returns the empty array.
\<close>

record springer_text =
  sp_text :: "string option"

record springer_creator =
  sp_creator :: "string option"

record springer_url =
  sp_value :: "string option"

record springer_record =
  sp_title :: "string option"
  sp_abstract :: "springer_text option"
  sp_creators :: "springer_creator list option"
  sp_publisher :: "springer_text option"
  sp_url :: "springer_url list option"
  sp_onlineDate :: "string option"
  sp_subjects :: "string list option"

record springer_data =
  sp_records :: "springer_record option list option"

definition springer_request :: "string option \<Rightarrow> string \<Rightarrow> request" where
  "springer_request SPRINGER_API_KEY topic =
     \<lparr>url = ''https://api.springernature.com/openaccess/json'',
      params = (case SPRINGER_API_KEY of None \<Rightarrow> [] | Some k \<Rightarrow> [(''api_key'', k)]) @
               [(''q'', ''keyword:'' @ topic)]\<rparr>"

definition springer_paper :: "springer_record option \<Rightarrow> exn + paper" where
  "springer_paper elem =
     (case elem of
        None \<Rightarrow> Inl TypeError
      | Some p \<Rightarrow>
          (case sp_url p of
             None \<Rightarrow> Inl TypeError
           | Some urls \<Rightarrow>
               Inr \<lparr>title = or_str (sp_title p) ''No title'',
                    summary = or_str (case sp_abstract p of None \<Rightarrow> None | Some a \<Rightarrow> sp_text a)
                                ''No abstract provided'',
                    link = or_str (case urls of [] \<Rightarrow> None | u # _ \<Rightarrow> sp_value u) ''#'',
                    authors = (case sp_creators p of None \<Rightarrow> [] | Some cs \<Rightarrow> map sp_creator cs),
                    source = or_str (case sp_publisher p of None \<Rightarrow> None | Some t \<Rightarrow> sp_text t)
                               ''Springer'',
                    year = or_0 (case sp_onlineDate p of
                                   None \<Rightarrow> None
                                 | Some d \<Rightarrow> parseInt (takeWhile (\<lambda>c. c \<noteq> CHR ''-'') d)),
                    citations = 0,
                    tags = (case sp_subjects p of None \<Rightarrow> [] | Some ss \<Rightarrow> ss)\<rparr>))"

definition springer_try :: "string option \<Rightarrow> (request \<Rightarrow> exn + springer_data) \<Rightarrow> string \<Rightarrow> exn + paper list" where
  "springer_try SPRINGER_API_KEY get topic =
     (case get (springer_request SPRINGER_API_KEY topic) of
        Inl e \<Rightarrow> Inl e
      | Inr d \<Rightarrow> map_exn springer_paper (case sp_records d of None \<Rightarrow> [] | Some rs \<Rightarrow> rs))"

definition fetchSpringer :: "string option \<Rightarrow> (request \<Rightarrow> exn + springer_data) \<Rightarrow> string \<Rightarrow> paper list" where
  "fetchSpringer SPRINGER_API_KEY get topic =
     (case springer_try SPRINGER_API_KEY get topic of Inl error \<Rightarrow> [] | Inr springerPapers \<Rightarrow> springerPapers)"

text \<open>The outside world of one \<^verbatim>\<open>/papers\<close> request: what each provider answers.\<close>

record net =
  openalex_api :: "request \<Rightarrow> exn + openalex_data"
  arxiv_api :: "request \<Rightarrow> exn + arxiv_entry list"
  semantic_api :: "request \<Rightarrow> exn + sem_data"
  springer_api :: "request \<Rightarrow> exn + springer_data"

subsection \<open>Server state\<close>

text \<open>
  \<open>store\<close> holds the array objects the handlers create, addressed by position;
  \<open>cachedPapers\<close> is the address the module variable refers to and \<open>topicCache\<close> the
  own properties of the cache object, each an address. At start-up \<open>cachedPapers\<close>
  is a fresh empty array and the cache object has no own property.
\<close>

record server =
  store :: "paper list list"
  cachedPapers :: nat
  topicCache :: "string \<rightharpoonup> nat"

definition init :: server where
  "init = \<lparr>store = [[]], cachedPapers = 0, topicCache = Map.empty\<rparr>"

text \<open>
  \<^verbatim>\<open>topicCache[topic]\<close>. The cache is a plain object, so a property it does not own is
  looked up in \<^verbatim>\<open>Object.prototype\<close>, whose members are functions or objects. The
  result is \<open>None\<close> where the expression is \<^verbatim>\<open>undefined\<close>; an array is truthy also when
  it is empty.
\<close>

definition object_prototype_names :: "string list" where
  "object_prototype_names =
     [''constructor'', ''__defineGetter__'', ''__defineSetter__'', ''hasOwnProperty'',
      ''__lookupGetter__'', ''__lookupSetter__'', ''isPrototypeOf'', ''propertyIsEnumerable'',
      ''toString'', ''valueOf'', ''__proto__'', ''toLocaleString'']"

datatype cache_value = ArrayAt nat | Builtin string

definition topicCache_get :: "server \<Rightarrow> string \<Rightarrow> cache_value option" where
  "topicCache_get st topic =
     (case topicCache st topic of
        Some r \<Rightarrow> Some (ArrayAt r)
      | None \<Rightarrow> if topic \<in> set object_prototype_names then Some (Builtin topic) else None)"

text \<open>The JSON bodies the two routes send; \<open>NotFound\<close> is the status 404 with
  \<^verbatim>\<open>{ error: "Paper not found" }\<close>.\<close>

datatype reply =
    Papers "paper list"
  | PapersBuiltin string
  | Related paper "paper list"
  | NotFound

subsection \<open>The route /papers\<close>

text \<open>The three inline adapters, each wrapped in \<^verbatim>\<open>safeFetch\<close>, and the array the handler
  spreads the four results into, in the order it awaits them.\<close>

definition openalex_adapter :: "net \<Rightarrow> string \<Rightarrow> paper list" where
  "openalex_adapter world topic = safeFetch (openalex_fetch (openalex_api world) topic)"

definition arxiv_adapter :: "net \<Rightarrow> string \<Rightarrow> paper list" where
  "arxiv_adapter world topic = safeFetch (arxiv_fetch (arxiv_api world) topic)"

definition semantic_adapter :: "net \<Rightarrow> string \<Rightarrow> paper list" where
  "semantic_adapter world topic = safeFetch (semantic_fetch (semantic_api world) topic)"

definition fetch_all :: "string option \<Rightarrow> net \<Rightarrow> string \<Rightarrow> paper list" where
  "fetch_all SPRINGER_API_KEY world topic =
     (let openAlexPapers = openalex_adapter world topic;
          arxivPapers = arxiv_adapter world topic;
          semPapers = semantic_adapter world topic;
          springerPapers = fetchSpringer SPRINGER_API_KEY (springer_api world) topic
      in openAlexPapers @ arxivPapers @ semPapers @ springerPapers)"

definition requests_sent :: "string option \<Rightarrow> string \<Rightarrow> request list" where
  "requests_sent SPRINGER_API_KEY topic =
     [openalex_request topic, arxiv_request topic, semantic_request topic,
      springer_request SPRINGER_API_KEY topic]"

definition with_badges :: "int \<Rightarrow> paper list \<Rightarrow> paper list" where
  "with_badges currentYear ps = map (\<lambda>p. p\<lparr>tags := assignBadges currentYear p\<rparr>) ps"

text \<open>
  The handler. It returns the new state, the requests it sent to providers and the
  reply. \<open>query_topic\<close> is \<^verbatim>\<open>req.query.topic\<close>. On a miss the new array \<open>allPapers\<close> is
  allocated at a fresh address \<open>a\<close>; \<open>cachedPapers\<close> and the cache entry are set to
  that address, and then the array at \<open>a\<close> is sorted in place.
\<close>

definition papers_route ::
  "string option \<Rightarrow> net \<Rightarrow> int \<Rightarrow> server \<Rightarrow> string option \<Rightarrow> server \<times> request list \<times> reply" where
  "papers_route SPRINGER_API_KEY world currentYear st query_topic =
     (let topic = or_str query_topic [] in
      case topicCache_get st topic of
        Some (ArrayAt r) \<Rightarrow> (st, [], Papers (store st ! r))
      | Some (Builtin b) \<Rightarrow> (st, [], PapersBuiltin b)
      | None \<Rightarrow>
          let allPapers = with_badges currentYear (fetch_all SPRINGER_API_KEY world topic);
              a = length (store st);
              st = st\<lparr>store := store st @ [allPapers]\<rparr>;
              st = st\<lparr>cachedPapers := a\<rparr>;
              st = st\<lparr>topicCache := (topicCache st)(topic \<mapsto> a)\<rparr>;
              st = st\<lparr>store := (store st)[a := array_sort (trending_cmp currentYear) (store st ! a)]\<rparr>
          in (st, requests_sent SPRINGER_API_KEY topic, Papers (store st ! a)))"

subsection \<open>The route /papers when a publisher text need not be text\<close>

text \<open>
  \<^verbatim>\<open>fetchSpringer\<close> takes the source of a paper from \<^verbatim>\<open>p.publisher?.text || "Springer"\<close>: any
  truthy value found there, of any type, becomes the source. \<open>js_value\<close> is a JSON
  value other than \<^verbatim>\<open>null\<close> (\<open>JsObject\<close> stands for any object or array), \<open>springer_item\<close> a
  record of the Springer payload whose publisher text is such a value, and
  \<open>loose_paper\<close> a paper object whose source is such a value. A publisher that is a
  string or a number has no property \<^verbatim>\<open>text\<close>: its \<open>pub_text\<close> is \<open>None\<close>.
\<close>

datatype js_value = JsString string | JsNumber real | JsBool bool | JsObject

definition truthy :: "js_value \<Rightarrow> bool" where
  "truthy v = (case v of JsString s \<Rightarrow> s \<noteq> [] | JsNumber n \<Rightarrow> n \<noteq> 0 | JsBool b \<Rightarrow> b | JsObject \<Rightarrow> True)"

text \<open>\<^verbatim>\<open>x || d\<close> on an optional value of any type.\<close>

definition or_value :: "js_value option \<Rightarrow> string \<Rightarrow> js_value" where
  "or_value x d = (case x of None \<Rightarrow> JsString d | Some v \<Rightarrow> if truthy v then v else JsString d)"

record springer_publisher =
  pub_text :: "js_value option"

record springer_item =
  it_title :: "string option"
  it_abstract :: "springer_text option"
  it_creators :: "springer_creator list option"
  it_publisher :: "springer_publisher option"
  it_url :: "springer_url list option"
  it_onlineDate :: "string option"
  it_subjects :: "string list option"

record springer_items =
  it_records :: "springer_item option list option"

record loose_paper =
  l_title :: string
  l_summary :: string
  l_link :: string
  l_authors :: "string option list"
  l_source :: js_value
  l_year :: int
  l_citations :: nat
  l_tags :: "string list"

definition springer_loose_paper :: "springer_item option \<Rightarrow> exn + loose_paper" where
  "springer_loose_paper elem =
     (case elem of
        None \<Rightarrow> Inl TypeError
      | Some p \<Rightarrow>
          (case it_url p of
             None \<Rightarrow> Inl TypeError
           | Some urls \<Rightarrow>
               Inr \<lparr>l_title = or_str (it_title p) ''No title'',
                    l_summary = or_str (case it_abstract p of None \<Rightarrow> None | Some a \<Rightarrow> sp_text a)
                                  ''No abstract provided'',
                    l_link = or_str (case urls of [] \<Rightarrow> None | u # _ \<Rightarrow> sp_value u) ''#'',
                    l_authors = (case it_creators p of None \<Rightarrow> [] | Some cs \<Rightarrow> map sp_creator cs),
                    l_source = or_value (case it_publisher p of None \<Rightarrow> None | Some t \<Rightarrow> pub_text t)
                                 ''Springer'',
                    l_year = or_0 (case it_onlineDate p of
                                     None \<Rightarrow> None
                                   | Some d \<Rightarrow> parseInt (takeWhile (\<lambda>c. c \<noteq> CHR ''-'') d)),
                    l_citations = 0,
                    l_tags = (case it_subjects p of None \<Rightarrow> [] | Some ss \<Rightarrow> ss)\<rparr>))"

definition fetchSpringer_loose ::
  "string option \<Rightarrow> (request \<Rightarrow> exn + springer_items) \<Rightarrow> string \<Rightarrow> loose_paper list" where
  "fetchSpringer_loose SPRINGER_API_KEY get topic =
     (case (case get (springer_request SPRINGER_API_KEY topic) of
              Inl e \<Rightarrow> Inl e
            | Inr d \<Rightarrow> map_exn springer_loose_paper
                        (case it_records d of None \<Rightarrow> [] | Some rs \<Rightarrow> rs)) of
        Inl error \<Rightarrow> []
      | Inr springerPapers \<Rightarrow> springerPapers)"

text \<open>A paper built by one of the other three adapters: its source is text.\<close>

definition loose :: "paper \<Rightarrow> loose_paper" where
  "loose p =
     \<lparr>l_title = title p, l_summary = summary p, l_link = link p, l_authors = authors p,
      l_source = JsString (source p), l_year = year p, l_citations = citations p,
      l_tags = tags p\<rparr>"

text \<open>
  \<^verbatim>\<open>{ ...p, tags: assignBadges(p) }\<close> on such a paper object. \<^verbatim>\<open>p.source.toLowerCase()\<close> raises
  a TypeError unless the source is a string; otherwise the badges are those of
  \<open>assignBadges\<close>.
\<close>

definition badged :: "int \<Rightarrow> loose_paper \<Rightarrow> exn + paper" where
  "badged currentYear p =
     (case l_source p of
        JsString s \<Rightarrow>
          Inr \<lparr>title = l_title p, summary = l_summary p, link = l_link p,
               authors = l_authors p, source = s, year = l_year p, citations = l_citations p,
               tags =
                 (if 50 \<le> l_citations p then [''Highly Cited''] else []) @
                 (if includes_str (toLowerCase s) ''arxiv'' then [''Open Access''] else []) @
                 (if currentYear - 1 \<le> l_year p then [''New''] else [])\<rparr>
      | JsNumber n \<Rightarrow> Inl TypeError
      | JsBool b \<Rightarrow> Inl TypeError
      | JsObject \<Rightarrow> Inl TypeError)"

text \<open>The array the handler spreads the four results into, with the Springer provider
  given apart from the other three.\<close>

definition fetch_loose ::
  "string option \<Rightarrow> net \<Rightarrow> (request \<Rightarrow> exn + springer_items) \<Rightarrow> string \<Rightarrow> loose_paper list" where
  "fetch_loose SPRINGER_API_KEY world springer topic =
     (let openAlexPapers = map loose (openalex_adapter world topic);
          arxivPapers = map loose (arxiv_adapter world topic);
          semPapers = map loose (semantic_adapter world topic);
          springerPapers = fetchSpringer_loose SPRINGER_API_KEY springer topic
      in openAlexPapers @ arxivPapers @ semPapers @ springerPapers)"

text \<open>
  The handler, on the arithmetic of an engine \<open>e\<close>. The map that assigns the badges is
  outside every \<^verbatim>\<open>try\<close>: when it raises the handler ends there, before \<open>cachedPapers\<close> and
  the cache are assigned, and sends no reply (\<open>Inl\<close>). Otherwise it goes on as
  \<open>papers_route\<close> does, and sorts with the comparator of the engine.
\<close>

definition papers_handler ::
  "engine \<Rightarrow> string option \<Rightarrow> net \<Rightarrow> (request \<Rightarrow> exn + springer_items) \<Rightarrow> int \<Rightarrow> server \<Rightarrow>
     string option \<Rightarrow> exn + server \<times> request list \<times> reply" where
  "papers_handler e SPRINGER_API_KEY world springer currentYear st query_topic =
     (let topic = or_str query_topic [] in
      case topicCache_get st topic of
        Some (ArrayAt r) \<Rightarrow> Inr (st, [], Papers (store st ! r))
      | Some (Builtin b) \<Rightarrow> Inr (st, [], PapersBuiltin b)
      | None \<Rightarrow>
          (case map_exn (badged currentYear) (fetch_loose SPRINGER_API_KEY world springer topic) of
             Inl err \<Rightarrow> Inl err
           | Inr allPapers \<Rightarrow>
               let a = length (store st);
                   st = st\<lparr>store := store st @ [allPapers]\<rparr>;
                   st = st\<lparr>cachedPapers := a\<rparr>;
                   st = st\<lparr>topicCache := (topicCache st)(topic \<mapsto> a)\<rparr>;
                   st = st\<lparr>store := (store st)
                          [a := array_sort (engine_cmp e currentYear) (store st ! a)]\<rparr>
               in Inr (st, requests_sent SPRINGER_API_KEY topic, Papers (store st ! a))))"

text \<open>A typed Springer payload as an untyped one, and the Springer provider of a \<open>net\<close>.\<close>

definition item_of :: "springer_record \<Rightarrow> springer_item" where
  "item_of p =
     \<lparr>it_title = sp_title p, it_abstract = sp_abstract p, it_creators = sp_creators p,
      it_publisher = map_option (\<lambda>t. \<lparr>pub_text = map_option JsString (sp_text t)\<rparr>) (sp_publisher p),
      it_url = sp_url p, it_onlineDate = sp_onlineDate p, it_subjects = sp_subjects p\<rparr>"

definition items_of :: "springer_data \<Rightarrow> springer_items" where
  "items_of d = \<lparr>it_records = map_option (map (map_option item_of)) (sp_records d)\<rparr>"

definition typed_springer :: "net \<Rightarrow> request \<Rightarrow> exn + springer_items" where
  "typed_springer world r = (case springer_api world r of Inl e \<Rightarrow> Inl e | Inr d \<Rightarrow> Inr (items_of d))"

subsection \<open>The route /related\<close>

text \<open>
  The TF-IDF model is the library's: \<open>tfidf docs text i\<close> stands for
  \<^verbatim>\<open>tfidf.tfidf(text, i)\<close> after the documents \<open>docs\<close> were added, and is a parameter.
  An element of \<open>scores\<close> refers to a paper object of the corpus; \<open>pos\<close> is the position
  of that object, which is its identity.
\<close>

type_synonym tfidf = "string list \<Rightarrow> string \<Rightarrow> nat \<Rightarrow> real"

record scored =
  pos :: nat
  entry :: paper
  score :: real

definition document :: "paper \<Rightarrow> string" where
  "document p = toLowerCase (title p @ '' '' @ summary p)"

definition scores :: "tfidf \<Rightarrow> paper list \<Rightarrow> nat \<Rightarrow> scored list" where
  "scores tfidf cached index =
     (let clickedText = document (cached ! index);
          docs = map document cached
      in map (\<lambda>(i, p). if i = index then \<lparr>pos = i, entry = p, score = - 1\<rparr>
                         else \<lparr>pos = i, entry = p, score = tfidf docs clickedText i\<rparr>)
             (enumerate 0 cached))"

definition related_scored :: "tfidf \<Rightarrow> paper list \<Rightarrow> nat \<Rightarrow> scored list" where
  "related_scored tfidf cached index =
     take 5 (array_sort (\<lambda>a b. score b - score a)
               (filter (\<lambda>s. 0 < score s) (scores tfidf cached index)))"

text \<open>
  \<open>index\<close> is the value of \<^verbatim>\<open>parseInt(req.query.index)\<close>. \<^verbatim>\<open>cachedPapers[index]\<close> is
  \<^verbatim>\<open>undefined\<close> for \<^verbatim>\<open>NaN\<close>, for a negative index and for one past the end; an element of
  the array is an object and so truthy.
\<close>

definition related :: "tfidf \<Rightarrow> server \<Rightarrow> int option \<Rightarrow> reply" where
  "related tfidf st index =
     (let cached = store st ! cachedPapers st in
      case index of
        None \<Rightarrow> NotFound
      | Some i \<Rightarrow>
          if i < 0 \<or> int (length cached) \<le> i then NotFound
          else
            let clickedPaper = cached ! nat i;
                relatedPapers = map entry (related_scored tfidf cached (nat i))
            in Related clickedPaper relatedPapers)"

definition related_route :: "tfidf \<Rightarrow> server \<Rightarrow> string option \<Rightarrow> reply" where
  "related_route tfidf st query_index =
     related tfidf st (case query_index of None \<Rightarrow> None | Some s \<Rightarrow> parseInt s)"

subsection \<open>Runs of the server\<close>

datatype call = GetPapers net int "string option" | GetRelated "string option"

fun step :: "string option \<Rightarrow> server \<Rightarrow> call \<Rightarrow> server" where
  "step key st (GetPapers world currentYear q) = fst (papers_route key world currentYear st q)"
| "step key st (GetRelated q) = st"

definition run :: "string option \<Rightarrow> server \<Rightarrow> call list \<Rightarrow> server" where
  "run key st calls = foldl (step key) st calls"

text \<open>Every address the state mentions names an array of the store.\<close>

definition wf :: "server \<Rightarrow> bool" where
  "wf st \<longleftrightarrow> cachedPapers st < length (store st) \<and>
            (\<forall>t r. topicCache st t = Some r \<longrightarrow> r < length (store st))"

subsection \<open>Vocabulary of the properties\<close>

text \<open>
  The table of \<^verbatim>\<open>normalizeSource\<close> as the specification lists it, and a
  case-insensitive substring match stated on the raw text: some run of \<open>s\<close> equals
  the key once lower-cased.
\<close>

definition source_table :: "(string \<times> string) list" where
  "source_table =
     [(''arxiv'', ''arXiv''), (''openalex'', ''OpenAlex''), (''ieee'', ''IEEE''),
      (''springer'', ''Springer''), (''elsevier'', ''Elsevier''), (''acm'', ''ACM'')]"

definition matches_ci :: "string \<Rightarrow> string \<Rightarrow> bool" where
  "matches_ci key s \<longleftrightarrow> (\<exists>u. sublist u s \<and> toLowerCase u = key)"

text \<open>The Corpus: the array \<open>cachedPapers\<close> refers to.\<close>

definition corpus :: "server \<Rightarrow> paper list" where
  "corpus st = store st ! cachedPapers st"

text \<open>The TF-IDF score of the paper at \<open>j\<close> against the document of the clicked paper.\<close>

definition similarity :: "tfidf \<Rightarrow> paper list \<Rightarrow> nat \<Rightarrow> nat \<Rightarrow> real" where
  "similarity tfidf cached index j = tfidf (map document cached) (document (cached ! index)) j"

text \<open>Descending score, ties in Corpus order.\<close>

definition ranks_before :: "scored \<Rightarrow> scored \<Rightarrow> bool" where
  "ranks_before a b \<longleftrightarrow> score b < score a \<or> (score a = score b \<and> pos a < pos b)"

definition scored_at :: "tfidf \<Rightarrow> paper list \<Rightarrow> nat \<Rightarrow> nat \<Rightarrow> scored" where
  "scored_at tfidf cached index j =
     \<lparr>pos = j, entry = cached ! j,
      score = (if j = index then - 1 else similarity tfidf cached index j)\<rparr>"

definition candidates :: "tfidf \<Rightarrow> paper list \<Rightarrow> nat \<Rightarrow> scored list" where
  "candidates tfidf cached index = filter (\<lambda>s. 0 < score s) (scores tfidf cached index)"

definition ranking :: "tfidf \<Rightarrow> paper list \<Rightarrow> nat \<Rightarrow> scored list" where
  "ranking tfidf cached index =
     array_sort (\<lambda>a b. score b - score a) (candidates tfidf cached index)"

text \<open>The array a \<^verbatim>\<open>/papers\<close> request builds on a cache miss, after the sort.\<close>

definition ranked_list :: "string option \<Rightarrow> net \<Rightarrow> int \<Rightarrow> string \<Rightarrow> paper list" where
  "ranked_list key world currentYear topic =
     array_sort (trending_cmp currentYear) (with_badges currentYear (fetch_all key world topic))"

text \<open>What the cache holds for a topic, as the reply a hit sends.\<close>

definition served :: "server \<Rightarrow> string \<Rightarrow> reply option" where
  "served st topic =
     (case topicCache_get st topic of
        None \<Rightarrow> None
      | Some (ArrayAt r) \<Rightarrow> Some (Papers (store st ! r))
      | Some (Builtin b) \<Rightarrow> Some (PapersBuiltin b))"

text \<open>Sample data for the concrete instances.\<close>

definition sample_paper :: "string \<Rightarrow> int \<Rightarrow> nat \<Rightarrow> paper" where
  "sample_paper t y c =
     \<lparr>title = t, summary = ''No abstract'', link = ''#'', authors = [],
      source = ''OpenAlex'', year = y, citations = c, tags = []\<rparr>"

definition sample_work :: "string \<Rightarrow> int \<Rightarrow> nat \<Rightarrow> openalex_work" where
  "sample_work t y c =
     \<lparr>oa_title = Some t, oa_abstract = None, oa_id = None, oa_authorships = None,
      oa_host_venue = None, oa_publication_year = Some y, oa_cited_by_count = Some c\<rparr>"

definition sample_record :: "string \<Rightarrow> string list \<Rightarrow> springer_record" where
  "sample_record t subjects =
     \<lparr>sp_title = Some t, sp_abstract = None, sp_creators = None, sp_publisher = None,
      sp_url = Some [], sp_onlineDate = None, sp_subjects = Some subjects\<rparr>"

definition sample_world :: "openalex_work option list \<Rightarrow> springer_record option list \<Rightarrow> net" where
  "sample_world works records =
     \<lparr>openalex_api = (\<lambda>r. Inr \<lparr>oa_results = Some works\<rparr>),
      arxiv_api = (\<lambda>r. Inl NetworkError),
      semantic_api = (\<lambda>r. Inl NetworkError),
      springer_api = (\<lambda>r. Inr \<lparr>sp_records = Some records\<rparr>)\<rparr>"

definition offline :: net where
  "offline =
     \<lparr>openalex_api = (\<lambda>r. Inl NetworkError),
      arxiv_api = (\<lambda>r. Inl NetworkError),
      semantic_api = (\<lambda>r. Inl NetworkError),
      springer_api = (\<lambda>r. Inl NetworkError)\<rparr>"

definition sample_springer_paper :: "string \<Rightarrow> string list \<Rightarrow> paper" where
  "sample_springer_paper t ts =
     \<lparr>title = t, summary = ''No abstract provided'', link = ''#'', authors = [],
      source = ''Springer'', year = 0, citations = 0, tags = ts\<rparr>"

definition six_records :: "springer_record option list" where
  "six_records =
     [Some (sample_record ''s1'' []), Some (sample_record ''s2'' []),
      Some (sample_record ''s3'' []), Some (sample_record ''s4'' []),
      Some (sample_record ''s5'' []), Some (sample_record ''s6'' [])]"

definition bad_item :: springer_item where
  "bad_item =
     \<lparr>it_title = Some ''s'', it_abstract = None, it_creators = None,
      it_publisher = Some \<lparr>pub_text = Some (JsNumber 5)\<rparr>,
      it_url = Some [], it_onlineDate = None, it_subjects = None\<rparr>"

definition sample_state :: server where
  "sample_state =
     \<lparr>store = [[sample_paper ''a'' 0 0, sample_paper ''b'' 0 0, sample_paper ''c'' 0 0]],
      cachedPapers = 0, topicCache = Map.empty\<rparr>"

section \<open>Properties\<close>

subsection \<open>Strings\<close>

lemma includes_str_sublist: "includes_str s sub \<longleftrightarrow> sublist sub s"
  by (induction s) (auto simp: sublist_Cons_right)

lemma includes_lower_iff: "includes_str (toLowerCase s) key \<longleftrightarrow> matches_ci key s"
proof
  assume "includes_str (toLowerCase s) key"
  then have "sublist key (map lower_char s)"
    by (simp add: includes_str_sublist toLowerCase_def)
  from sublist_map_rightE [OF this] obtain u where "sublist u s" "key = map lower_char u"
    by blast
  then show "matches_ci key s" by (auto simp: matches_ci_def toLowerCase_def)
next
  assume "matches_ci key s"
  then obtain u where "sublist u s" "map lower_char u = key"
    by (auto simp: matches_ci_def toLowerCase_def)
  then have "sublist key (map lower_char s)" using map_mono_sublist by blast
  then show "includes_str (toLowerCase s) key"
    by (simp add: includes_str_sublist toLowerCase_def)
qed

lemma upper_lower_char: "upper_char (lower_char c) = upper_char c"
  by (simp add: upper_char_def lower_char_def upper_letters_def lower_letters_def)

lemma fallback_eq:
  "toUpperCase (charAt0 (toLowerCase s)) @ slice1 (toLowerCase s) =
   toUpperCase (take 1 s) @ toLowerCase (drop 1 s)"
  by (simp add: toLowerCase_def toUpperCase_def charAt0_def slice1_def take_map drop_map
      upper_lower_char o_def)

lemma find_table:
  "find (\<lambda>(key, label). matches_ci key s) source_table =
     (if matches_ci ''arxiv'' s then Some (''arxiv'', ''arXiv'')
      else if matches_ci ''openalex'' s then Some (''openalex'', ''OpenAlex'')
      else if matches_ci ''ieee'' s then Some (''ieee'', ''IEEE'')
      else if matches_ci ''springer'' s then Some (''springer'', ''Springer'')
      else if matches_ci ''elsevier'' s then Some (''elsevier'', ''Elsevier'')
      else if matches_ci ''acm'' s then Some (''acm'', ''ACM'')
      else None)"
  unfolding source_table_def by (simp only: find.simps case_prod_conv)

lemma norm_char: "normalizeSource raw =
     (case raw of
        None \<Rightarrow> ''Unknown''
      | Some s \<Rightarrow>
          if s = [] then ''Unknown''
          else (case find (\<lambda>(key, label). matches_ci key s) source_table of
                  Some (key, label) \<Rightarrow> label
                | None \<Rightarrow> toUpperCase (take 1 s) @ toLowerCase (drop 1 s)))"
proof (cases raw)
  case None
  then show ?thesis by (simp only: normalizeSource_def option.case)
next
  case (Some s)
  show ?thesis
    unfolding Some find_table normalizeSource_def Let_def includes_lower_iff fallback_eq
    by (simp only: option.case if_distrib [of "case_option _ _"] case_prod_conv cong: if_cong)
qed

lemma normalizeSource_lowers_the_rest:
  "normalizeSource (Some ''NaTuRe'') = ''Nature'' \<and>
   normalizeSource (Some ''Semantic Scholar'') = ''Semantic scholar'' \<and>
   normalizeSource (Some ''acm springer'') = ''Springer''"
  by (simp add: normalizeSource_def toLowerCase_def toUpperCase_def lower_char_def
      upper_char_def upper_letters_def lower_letters_def charAt0_def slice1_def)

subsection \<open>Sorting by a key difference\<close>

text \<open>
  Both comparators of the server are differences of a key, \<open>\<lambda>a b. f b - f a\<close>. For such a
  comparator \<open>array_sort\<close> is the library's stable insertion sort on the negated key.
\<close>

lemma insert_cmp_insort_key:
  "insert_cmp (\<lambda>a b. f b - f a) x ys = insort_key (\<lambda>a. - f a) x ys"
  by (induction ys) auto

lemma array_sort_sort_key:
  "array_sort (\<lambda>a b. f b - f a) xs = sort_key (\<lambda>a. - f a) xs"
  by (induction xs) (simp_all add: array_sort_def sort_key_def insert_cmp_insort_key)

lemma mset_array_sort_key: "mset (array_sort (\<lambda>a b. f b - f a) xs) = mset xs"
  by (simp add: array_sort_sort_key)

lemma set_array_sort_key: "set (array_sort (\<lambda>a b. f b - f a) xs) = set xs"
  by (simp add: array_sort_sort_key)


lemma stable_array_sort_key:
  "filter (\<lambda>y. f y = k) (array_sort (\<lambda>a b. f b - f a) xs) = filter (\<lambda>y. f y = k) xs"
proof -
  have "filter (\<lambda>y. - f y = - k) (sort_key (\<lambda>a. - f a) xs) = filter (\<lambda>y. - f y = - k) xs"
    by (rule sort_key_stable)
  then show ?thesis by (simp add: array_sort_sort_key)
qed

lemma set_insert_cmp: "set (insert_cmp cmp x ys) = insert x (set ys)"
  by (induction ys) auto

lemma trending_cmp_eq:
  "trending_cmp cy = (\<lambda>a b. trending_score cy b - trending_score cy a)"
  by (intro ext) (simp add: trending_cmp_def)

subsection \<open>The trending comparator on an engine\<close>

lemma mset_insert_cmp: "mset (insert_cmp cmp x ys) = add_mset x (mset ys)"
  by (induction ys) auto

lemma mset_array_sort: "mset (array_sort cmp xs) = mset xs"
  by (induction xs) (simp_all add: array_sort_def mset_insert_cmp)

lemma engine_cmp_sign:
  assumes "keeps_sign e"
  shows "engine_cmp e cy a b \<le> 0 \<longleftrightarrow> engine_score e cy b \<le> engine_score e cy a"
  using assms unfolding keeps_sign_def engine_cmp_def engine_score_def by blast

lemma insert_engine_cmp:
  assumes "keeps_sign e"
  shows "insert_cmp (engine_cmp e cy) x ys = insort_key (\<lambda>p. - engine_score e cy p) x ys"
  by (induction ys) (simp_all add: engine_cmp_sign [OF assms])

lemma array_sort_engine:
  assumes "keeps_sign e"
  shows "array_sort (engine_cmp e cy) ps = sort_key (\<lambda>p. - engine_score e cy p) ps"
  by (induction ps) (simp_all add: array_sort_def sort_key_def insert_engine_cmp [OF assms])

lemma sorted_array_sort_engine:
  assumes "keeps_sign e"
  shows "sorted_wrt (\<lambda>a b. engine_score e cy b \<le> engine_score e cy a)
     (array_sort (engine_cmp e cy) ps)"
proof -
  have "sorted (map (\<lambda>p. - engine_score e cy p) (sort_key (\<lambda>p. - engine_score e cy p) ps))"
    by (rule sorted_sort_key)
  then show ?thesis
    by (simp add: array_sort_engine [OF assms] sorted_map)
qed

lemma stable_array_sort_engine:
  assumes "keeps_sign e"
  shows "filter (\<lambda>p. engine_score e cy p = k) (array_sort (engine_cmp e cy) ps) =
     filter (\<lambda>p. engine_score e cy p = k) ps"
proof -
  have "filter (\<lambda>p. - engine_score e cy p = - k) (sort_key (\<lambda>p. - engine_score e cy p) ps) =
      filter (\<lambda>p. - engine_score e cy p = - k) ps"
    by (rule sort_key_stable)
  then show ?thesis by (simp add: array_sort_engine [OF assms])
qed

lemma tie_keeps_arrival_order:
  assumes "keeps_sign e" and "engine_score e cy a = engine_score e cy b"
  shows "array_sort (engine_cmp e cy) [a, b] = [a, b]"
  using assms by (simp add: array_sort_def engine_cmp_sign)

lemma engine_score_older:
  assumes "order_preserving e" and "citations a = citations b"
    and "year a \<noteq> 0" and "year b \<noteq> 0" and "cy - year a \<le> cy - year b"
  shows "engine_score e cy b \<le> engine_score e cy a"
proof -
  from assms(1) have mono: "\<And>x y. x \<le> y \<Longrightarrow> rnd e x \<le> rnd e y"
    by (simp add: order_preserving_def)
  have "rnd e (real_of_int (cy - year a)) \<le> rnd e (real_of_int (cy - year b))"
    using assms(5) by (intro mono) simp
  then have "rnd e (rnd e (real_of_int (cy - year b)) * (- 0.5)) \<le>
      rnd e (rnd e (real_of_int (cy - year a)) * (- 0.5))"
    by (intro mono) simp
  then show ?thesis
    unfolding engine_score_def using assms(2,3,4) by (auto intro!: mono)
qed

lemma engine_score_more_cited:
  assumes "order_preserving e" and "year c = year d" and "citations c \<le> citations d"
  shows "engine_score e cy c \<le> engine_score e cy d"
proof -
  from assms(1) have mono: "\<And>x y. x \<le> y \<Longrightarrow> rnd e x \<le> rnd e y"
    and one: "rnd e 1 = 1"
    and lg: "\<And>x y. 1 \<le> x \<Longrightarrow> x \<le> y \<Longrightarrow> Math_log e x \<le> Math_log e y"
    by (simp_all add: order_preserving_def)
  have le: "rnd e (real (citations c) + 1) \<le> rnd e (real (citations d) + 1)"
    using assms(3) by (intro mono) simp
  have "rnd e 1 \<le> rnd e (real (citations c) + 1)" by (intro mono) simp
  then have "1 \<le> rnd e (real (citations c) + 1)" by (simp add: one)
  from lg [OF this le]
  show ?thesis
    unfolding engine_score_def using assms(2) by (auto intro!: mono)
qed

lemma exact_engine_props:
  "keeps_sign exact_engine \<and> order_preserving exact_engine \<and>
   engine_score exact_engine cy = trending_score cy \<and> engine_cmp exact_engine cy = trending_cmp cy \<and>
   spec_engine_score exact_engine cy = spec_trending_score cy"
  by (auto simp: keeps_sign_def order_preserving_def exact_engine_def engine_score_def engine_cmp_def
      spec_engine_score_def trending_score_def trending_cmp_def spec_trending_score_def
      fun_eq_iff)

lemma saturating_engine_props: "keeps_sign saturating_engine \<and> order_preserving saturating_engine"
  by (auto simp: keeps_sign_def order_preserving_def saturating_engine_def min_def)

text \<open>
  Where the engine's logarithm ties, the papers keep their order of arrival, while the
  exact score separates them.
\<close>

lemma saturating_engine_ties:
  "array_sort (engine_cmp saturating_engine 2026)
     [sample_paper ''a'' 2020 2000, sample_paper ''b'' 2020 3000] =
     [sample_paper ''a'' 2020 2000, sample_paper ''b'' 2020 3000] \<and>
   array_sort (trending_cmp 2026)
     [sample_paper ''a'' 2020 2000, sample_paper ''b'' 2020 3000] =
     [sample_paper ''b'' 2020 3000, sample_paper ''a'' 2020 2000]"
proof -
  have "engine_score saturating_engine 2026 (sample_paper ''a'' 2020 2000) =
      engine_score saturating_engine 2026 (sample_paper ''b'' 2020 3000)"
    by (simp add: engine_score_def saturating_engine_def sample_paper_def)
  moreover have "trending_score 2026 (sample_paper ''a'' 2020 2000) <
      trending_score 2026 (sample_paper ''b'' 2020 3000)"
    by (simp add: trending_score_def sample_paper_def)
  ultimately show ?thesis
    using saturating_engine_props
      tie_keeps_arrival_order [of saturating_engine 2026
        "sample_paper ''a'' 2020 2000" "sample_paper ''b'' 2020 3000"]
    by (simp add: array_sort_def trending_cmp_def)
qed

subsection \<open>The related list\<close>

lemma ranks_before_insert:
  assumes "sorted_wrt ranks_before ys" and "\<forall>y\<in>set ys. pos x < pos y"
  shows "sorted_wrt ranks_before (insert_cmp (\<lambda>a b. score b - score a) x ys)"
  using assms
proof (induction ys)
  case Nil
  then show ?case by simp
next
  case (Cons y ys)
  show ?case
  proof (cases "score y - score x \<le> 0")
    case True
    have "ranks_before x z" if "z \<in> set (y # ys)" for z
    proof -
      have "score z \<le> score y" using that Cons.prems(1) by (auto simp: ranks_before_def)
      moreover have "pos x < pos z" using that Cons.prems(2) by auto
      ultimately show ?thesis using True by (auto simp: ranks_before_def)
    qed
    with True Cons.prems(1) show ?thesis by simp
  next
    case False
    then have yx: "ranks_before y x" by (simp add: ranks_before_def)
    have "sorted_wrt ranks_before (insert_cmp (\<lambda>a b. score b - score a) x ys)"
      using Cons by simp
    moreover have "\<forall>w\<in>set (insert_cmp (\<lambda>a b. score b - score a) x ys). ranks_before y w"
      using yx Cons.prems(1) by (simp add: set_insert_cmp)
    ultimately show ?thesis using False by simp
  qed
qed

lemma ranks_before_array_sort:
  assumes "sorted_wrt (<) (map pos xs)"
  shows "sorted_wrt ranks_before (array_sort (\<lambda>a b. score b - score a) xs)"
  using assms
proof (induction xs)
  case Nil
  then show ?case by (simp add: array_sort_def)
next
  case (Cons x xs)
  have step: "array_sort (\<lambda>a b. score b - score a) (x # xs) =
      insert_cmp (\<lambda>a b. score b - score a) x (array_sort (\<lambda>a b. score b - score a) xs)"
    by (simp add: array_sort_def)
  have "\<forall>y\<in>set (array_sort (\<lambda>a b. score b - score a) xs). pos x < pos y"
    using Cons.prems by (auto simp: set_array_sort_key)
  moreover have "sorted_wrt ranks_before (array_sort (\<lambda>a b. score b - score a) xs)"
    using Cons by simp
  ultimately show ?case unfolding step by (rule ranks_before_insert [rotated])
qed

lemma scores_eq:
  "scores tfidf cached index = map (scored_at tfidf cached index) [0..<length cached]"
  by (rule nth_equalityI)
     (simp_all add: scores_def Let_def enumerate_eq_zip scored_at_def similarity_def)

lemma pos_scored_at [simp]: "pos (scored_at tfidf cached index j) = j"
  by (simp add: scored_at_def)

lemma map_pos_scores: "map pos (scores tfidf cached index) = [0..<length cached]"
  by (simp add: scores_eq o_def)

lemma set_candidates:
  "set (candidates tfidf cached index) =
     scored_at tfidf cached index `
       {j. j < length cached \<and> j \<noteq> index \<and> 0 < similarity tfidf cached index j}"
  by (auto simp: candidates_def scores_eq scored_at_def)

lemma sorted_pos_candidates: "sorted_wrt (<) (map pos (candidates tfidf cached index))"
proof -
  have "sorted_wrt (<) (map pos (scores tfidf cached index))"
    by (simp add: map_pos_scores)
  then have "sorted_wrt (\<lambda>a b. pos a < pos b) (scores tfidf cached index)"
    by (simp add: sorted_wrt_map)
  then have "sorted_wrt (\<lambda>a b. pos a < pos b) (candidates tfidf cached index)"
    unfolding candidates_def by (rule sorted_wrt_filter)
  then show ?thesis by (simp add: sorted_wrt_map)
qed

lemma related_scored_ranking:
  "related_scored tfidf cached index = take 5 (ranking tfidf cached index)"
  by (simp add: related_scored_def ranking_def candidates_def)

lemma set_ranking:
  "set (ranking tfidf cached index) =
     scored_at tfidf cached index `
       {j. j < length cached \<and> j \<noteq> index \<and> 0 < similarity tfidf cached index j}"
  by (simp add: ranking_def set_array_sort_key set_candidates)

lemma sorted_ranking: "sorted_wrt ranks_before (ranking tfidf cached index)"
  unfolding ranking_def by (rule ranks_before_array_sort) (rule sorted_pos_candidates)

lemma distinct_pos_ranking: "distinct (map pos (ranking tfidf cached index))"
proof -
  have "mset (ranking tfidf cached index) = mset (candidates tfidf cached index)"
    by (simp add: ranking_def mset_array_sort_key)
  then have "mset (map pos (ranking tfidf cached index)) =
      mset (map pos (candidates tfidf cached index))"
    by (simp only: mset_map)
  moreover have "distinct (map pos (candidates tfidf cached index))"
    using sorted_pos_candidates by (simp add: strict_sorted_iff)
  ultimately show ?thesis using mset_eq_imp_distinct_iff by blast
qed

lemma related_in_bounds:
  assumes "0 \<le> i" and "i < int (length (corpus st))"
  shows "related tfidf st (Some i) =
     Related (corpus st ! nat i) (map entry (related_scored tfidf (corpus st) (nat i)))"
  using assms by (simp add: related_def corpus_def Let_def)

lemma ranking_member:
  assumes "s \<in> set (ranking tfidf cached index)"
  shows "pos s \<noteq> index \<and> pos s < length cached \<and> entry s = cached ! pos s \<and>
     score s = similarity tfidf cached index (pos s) \<and> 0 < score s"
  using assms by (auto simp: set_ranking scored_at_def)

lemma left_out_ranks_after:
  assumes j: "j < length cached" "j \<noteq> index" "0 < similarity tfidf cached index j"
    and out: "j \<notin> pos ` set (take 5 (ranking tfidf cached index))"
  shows "length (take 5 (ranking tfidf cached index)) = 5 \<and>
     (\<forall>s\<in>set (take 5 (ranking tfidf cached index)).
        similarity tfidf cached index j < score s \<or>
        (similarity tfidf cached index j = score s \<and> pos s < j))"
proof -
  let ?all = "ranking tfidf cached index"
  let ?t = "scored_at tfidf cached index j"
  have mem: "?t \<in> set ?all" using j by (auto simp: set_ranking)
  have "?t \<notin> set (take 5 ?all)" using out by force
  with mem have in_drop: "?t \<in> set (drop 5 ?all)"
    by (metis Un_iff append_take_drop_id set_append)
  then have "drop 5 ?all \<noteq> []" by auto
  then have len: "length (take 5 ?all) = 5" by simp
  have "sorted_wrt ranks_before (take 5 ?all @ drop 5 ?all)"
    using sorted_ranking [of tfidf cached index] by simp
  then have "\<forall>s\<in>set (take 5 ?all). ranks_before s ?t"
    using in_drop unfolding sorted_wrt_append by blast
  then have "\<forall>s\<in>set (take 5 ?all).
      similarity tfidf cached index j < score s \<or>
      (similarity tfidf cached index j = score s \<and> pos s < j)"
    using j(2) by (auto simp: ranks_before_def scored_at_def)
  with len show ?thesis by blast
qed

subsection \<open>One request to /papers\<close>

lemma papers_route_miss:
  assumes "topicCache_get st (or_str q []) = None"
  shows "papers_route key world cy st q =
     (st\<lparr>store := store st @ [ranked_list key world cy (or_str q [])],
         cachedPapers := length (store st),
         topicCache := (topicCache st)(or_str q [] \<mapsto> length (store st))\<rparr>,
      requests_sent key (or_str q []),
      Papers (ranked_list key world cy (or_str q [])))"
  using assms by (simp add: papers_route_def Let_def ranked_list_def)

lemma papers_route_hit_array:
  assumes "topicCache_get st (or_str q []) = Some (ArrayAt r)"
  shows "papers_route key world cy st q = (st, [], Papers (store st ! r))"
  using assms by (simp add: papers_route_def Let_def)

lemma papers_route_hit_builtin:
  assumes "topicCache_get st (or_str q []) = Some (Builtin b)"
  shows "papers_route key world cy st q = (st, [], PapersBuiltin b)"
  using assms by (simp add: papers_route_def Let_def)

lemma topicCache_get_cases:
  obtains (miss) "topicCache_get st t = None" "topicCache st t = None"
  | (array) r where "topicCache_get st t = Some (ArrayAt r)" "topicCache st t = Some r"
  | (builtin) "topicCache_get st t = Some (Builtin t)" "topicCache st t = None"
proof (cases "topicCache st t")
  case None
  show ?thesis
  proof (cases "t \<in> set object_prototype_names")
    case True
    with None show ?thesis by (intro builtin) (simp_all add: topicCache_get_def)
  next
    case False
    with None show ?thesis by (intro miss) (simp_all add: topicCache_get_def)
  qed
next
  case (Some r)
  then show ?thesis by (intro array [of r]) (simp_all add: topicCache_get_def)
qed

lemma papers_route_twice:
  "papers_route key world' cy' (fst (papers_route key world cy st q)) q =
     (fst (papers_route key world cy st q), [], snd (snd (papers_route key world cy st q)))"
proof (cases st "or_str q []" rule: topicCache_get_cases)
  case miss
  let ?st1 = "fst (papers_route key world cy st q)"
  have "topicCache_get ?st1 (or_str q []) = Some (ArrayAt (length (store st)))"
    by (simp add: papers_route_miss [OF miss(1)] topicCache_get_def)
  from papers_route_hit_array [OF this] show ?thesis
    by (simp add: papers_route_miss [OF miss(1)])
next
  case (array r)
  then show ?thesis by (simp add: papers_route_hit_array)
next
  case builtin
  then show ?thesis by (simp add: papers_route_hit_builtin)
qed

lemma served_after_route:
  "served (fst (papers_route key world cy st q)) (or_str q []) =
     Some (snd (snd (papers_route key world cy st q)))"
proof (cases st "or_str q []" rule: topicCache_get_cases)
  case miss
  then show ?thesis
    by (simp add: papers_route_miss [OF miss(1)] served_def topicCache_get_def)
next
  case (array r)
  then show ?thesis by (simp add: papers_route_hit_array served_def)
next
  case builtin
  then show ?thesis by (simp add: papers_route_hit_builtin served_def)
qed

lemma served_hit:
  assumes "served st (or_str q []) = Some rep"
  shows "papers_route key world cy st q = (st, [], rep)"
proof (cases st "or_str q []" rule: topicCache_get_cases)
  case miss
  with assms show ?thesis by (simp add: served_def)
next
  case (array r)
  with assms show ?thesis by (simp add: papers_route_hit_array served_def)
next
  case builtin
  with assms show ?thesis by (simp add: papers_route_hit_builtin served_def)
qed

lemma hit_keeps_corpus:
  "topicCache_get st (or_str q []) \<noteq> None \<Longrightarrow>
     cachedPapers (fst (papers_route key world cy st q)) = cachedPapers st"
  by (cases st "or_str q []" rule: topicCache_get_cases)
     (simp_all add: papers_route_hit_array papers_route_hit_builtin)

lemma assignBadges_ignores_tags: "assignBadges cy (p\<lparr>tags := ts\<rparr>) = assignBadges cy p"
  by (simp add: assignBadges_def)

lemma badges_of_with_badges: "\<forall>p\<in>set (with_badges cy ps). tags p = assignBadges cy p"
  by (auto simp: with_badges_def assignBadges_ignores_tags)

lemma set_ranked_list:
  "set (ranked_list key world cy topic) = set (with_badges cy (fetch_all key world topic))"
  unfolding ranked_list_def trending_cmp_eq by (rule set_array_sort_key)

lemma mset_ranked_list:
  "mset (ranked_list key world cy topic) = mset (with_badges cy (fetch_all key world topic))"
  unfolding ranked_list_def trending_cmp_eq by (rule mset_array_sort_key)

subsection \<open>Runs: the store only grows\<close>

lemma wf_init: "wf init"
  by (simp add: wf_def init_def)

lemma wf_papers_route:
  assumes "wf st"
  shows "wf (fst (papers_route key world cy st q))"
proof (cases st "or_str q []" rule: topicCache_get_cases)
  case miss
  have "r < Suc (length (store st))" if "topicCache st t = Some r" for t r
    using assms that by (auto simp: wf_def less_Suc_eq)
  then show ?thesis
    by (simp add: papers_route_miss [OF miss(1)] wf_def)
next
  case (array r)
  with assms show ?thesis by (simp add: papers_route_hit_array)
next
  case builtin
  with assms show ?thesis by (simp add: papers_route_hit_builtin)
qed

lemma served_kept_by_route:
  assumes "wf st" and "served st t = Some rep"
  shows "served (fst (papers_route key world cy st q)) t = Some rep"
proof (cases st "or_str q []" rule: topicCache_get_cases)
  case miss
  from assms(2) have hit: "topicCache_get st t \<noteq> None"
    by (auto simp: served_def split: option.splits)
  with miss(1) have ne: "t \<noteq> or_str q []" by auto
  let ?st1 = "fst (papers_route key world cy st q)"
  have tc: "topicCache ?st1 t = topicCache st t"
    using ne by (simp add: papers_route_miss [OF miss(1)])
  then have get: "topicCache_get ?st1 t = topicCache_get st t"
    by (simp add: topicCache_get_def)
  have nth: "store ?st1 ! r = store st ! r" if "topicCache st t = Some r" for r
  proof -
    from assms(1) that have "r < length (store st)" by (auto simp: wf_def)
    then show ?thesis by (simp add: papers_route_miss [OF miss(1)] nth_append)
  qed
  show ?thesis
    using assms(2) nth unfolding served_def get
    by (auto simp: topicCache_get_def split: option.splits if_splits)
next
  case (array r)
  with assms show ?thesis by (simp add: papers_route_hit_array)
next
  case builtin
  with assms show ?thesis by (simp add: papers_route_hit_builtin)
qed

lemma wf_step: "wf st \<Longrightarrow> wf (step key st c)"
  by (cases c) (simp_all add: wf_papers_route)

lemma served_kept_by_step: "wf st \<Longrightarrow> served st t = Some rep \<Longrightarrow> served (step key st c) t = Some rep"
  by (cases c) (simp_all add: served_kept_by_route)

lemma run_keeps:
  "wf st \<Longrightarrow> served st t = Some rep \<Longrightarrow>
     wf (run key st calls) \<and> served (run key st calls) t = Some rep"
  unfolding run_def
proof (induction calls arbitrary: st)
  case Nil
  then show ?case by simp
next
  case (Cons c calls)
  from Cons.prems have "wf (step key st c)" "served (step key st c) t = Some rep"
    by (simp_all add: wf_step served_kept_by_step)
  from Cons.IH [OF this] show ?case by simp
qed

subsection \<open>Adapters\<close>

text \<open>
  What makes an adapter body raise (a transport error, a \<^verbatim>\<open>null\<close> record, a Springer
  record without \<^verbatim>\<open>url\<close>), and how many papers an adapter can contribute: never more
  than its provider returned, and nothing in the adapter cuts that number down.
\<close>

lemma map_exn_raises:
  "x \<in> set xs \<Longrightarrow> f x = Inl e \<Longrightarrow> \<exists>e'. map_exn f xs = Inl e'"
  by (induction xs) (auto split: sum.splits)

lemma length_map_exn: "map_exn f xs = Inr ys \<Longrightarrow> length ys = length xs"
  by (induction xs arbitrary: ys) (auto split: sum.splits)

lemma fetch_all_parts:
  "fetch_all key world topic =
     safeFetch (openalex_fetch (openalex_api world) topic) @
     safeFetch (arxiv_fetch (arxiv_api world) topic) @
     safeFetch (semantic_fetch (semantic_api world) topic) @
     fetchSpringer key (springer_api world) topic"
  by (simp add: fetch_all_def openalex_adapter_def arxiv_adapter_def semantic_adapter_def)

lemma transport_error_raises:
  "openalex_api world (openalex_request topic) = Inl e \<Longrightarrow>
     openalex_fetch (openalex_api world) topic = Inl e"
  "arxiv_api world (arxiv_request topic) = Inl e \<Longrightarrow>
     arxiv_fetch (arxiv_api world) topic = Inl e"
  "semantic_api world (semantic_request topic) = Inl e \<Longrightarrow>
     semantic_fetch (semantic_api world) topic = Inl e"
  "springer_api world (springer_request key topic) = Inl e \<Longrightarrow>
     springer_try key (springer_api world) topic = Inl e"
  by (simp_all add: openalex_fetch_def arxiv_fetch_def semantic_fetch_def springer_try_def)

lemma null_record_raises:
  "openalex_api world (openalex_request topic) = Inr d \<Longrightarrow> oa_results d = Some rs \<Longrightarrow>
     None \<in> set rs \<Longrightarrow> \<exists>e. openalex_fetch (openalex_api world) topic = Inl e"
  "semantic_api world (semantic_request topic) = Inr d' \<Longrightarrow> ss_data d' = Some rs' \<Longrightarrow>
     None \<in> set rs' \<Longrightarrow> \<exists>e. semantic_fetch (semantic_api world) topic = Inl e"
  "springer_api world (springer_request key topic) = Inr d'' \<Longrightarrow> sp_records d'' = Some rs'' \<Longrightarrow>
     None \<in> set rs'' \<Longrightarrow> \<exists>e. springer_try key (springer_api world) topic = Inl e"
  by (auto simp: openalex_fetch_def semantic_fetch_def springer_try_def
      intro: map_exn_raises [where e = TypeError]
      simp: openalex_paper_def semantic_paper_def springer_paper_def)

lemma springer_missing_url_raises:
  "springer_api world (springer_request key topic) = Inr d \<Longrightarrow> sp_records d = Some rs \<Longrightarrow>
     Some p \<in> set rs \<Longrightarrow> sp_url p = None \<Longrightarrow>
     \<exists>e. springer_try key (springer_api world) topic = Inl e"
  by (auto simp: springer_try_def intro: map_exn_raises [where e = TypeError]
      simp: springer_paper_def)

lemma adapter_size_is_reply_size:
  "openalex_api world (openalex_request topic) = Inr d \<Longrightarrow>
     length (openalex_adapter world topic) \<le> length (case oa_results d of None \<Rightarrow> [] | Some rs \<Rightarrow> rs)"
  "arxiv_api world (arxiv_request topic) = Inr entries \<Longrightarrow>
     length (arxiv_adapter world topic) = length entries"
  "semantic_api world (semantic_request topic) = Inr d' \<Longrightarrow>
     length (semantic_adapter world topic) \<le> length (case ss_data d' of None \<Rightarrow> [] | Some rs \<Rightarrow> rs)"
  "springer_api world (springer_request key topic) = Inr d'' \<Longrightarrow>
     length (fetchSpringer key (springer_api world) topic) \<le>
       length (case sp_records d'' of None \<Rightarrow> [] | Some rs \<Rightarrow> rs)"
  by (auto simp: openalex_adapter_def arxiv_adapter_def semantic_adapter_def fetchSpringer_def
      safeFetch_def openalex_fetch_def arxiv_fetch_def semantic_fetch_def springer_try_def
      split: sum.splits dest: length_map_exn)

subsection \<open>The sample data evaluated\<close>

lemma init_miss: "topicCache_get init (or_str (Some ''t'') []) = None"
  by (simp add: topicCache_get_def init_def or_str_def object_prototype_names_def)

lemma springer_paper_sample:
  "springer_paper (Some (sample_record (x # xs) ts)) = Inr (sample_springer_paper (x # xs) ts)"
  by (simp add: springer_paper_def sample_record_def sample_springer_paper_def or_str_def
      or_0_def)

lemma sample_world_fetch_all:
  "fetch_all key (sample_world [Some (sample_work (x # xs) y c), Some (sample_work (x' # xs') y' c')] []) topic =
     [sample_paper (x # xs) y c, sample_paper (x' # xs') y' c']"
  by (simp add: fetch_all_def openalex_adapter_def arxiv_adapter_def semantic_adapter_def
      fetchSpringer_def springer_try_def safeFetch_def openalex_fetch_def arxiv_fetch_def
      semantic_fetch_def sample_world_def sample_work_def sample_paper_def openalex_paper_def
      or_str_def or_0_def normalizeSource_def toLowerCase_def lower_char_def upper_letters_def
      lower_letters_def)

lemma assignBadges_sample:
  "assignBadges cy (sample_paper t y c) =
     (if 50 \<le> c then [''Highly Cited''] else []) @ (if cy - 1 \<le> y then [''New''] else [])"
  by (simp add: assignBadges_def sample_paper_def toLowerCase_def lower_char_def
      upper_letters_def lower_letters_def)

lemma trending_score_sample:
  "trending_score cy (sample_paper t y 0) = (if y \<noteq> 0 then real_of_int (cy - y) * (- 0.5) else 0)"
  by (simp add: trending_score_def sample_paper_def)

lemma tags_sample: "(sample_paper t y c)\<lparr>tags := []\<rparr> = sample_paper t y c"
  by (simp add: sample_paper_def)

lemma sample_world_ranked:
  "ranked_list None
     (sample_world [Some (sample_work ''x'' 2020 0), Some (sample_work ''y'' 2024 0)] []) 2026 topic =
   [sample_paper ''y'' 2024 0, sample_paper ''x'' 2020 0]"
  by (simp add: ranked_list_def sample_world_fetch_all with_badges_def assignBadges_sample
      tags_sample array_sort_def trending_cmp_def trending_score_sample)

lemma offline_adapters:
  "openalex_adapter offline topic = [] \<and> arxiv_adapter offline topic = [] \<and>
   semantic_adapter offline topic = [] \<and> fetchSpringer key (springer_api offline) topic = []"
  by (simp add: openalex_adapter_def arxiv_adapter_def semantic_adapter_def fetchSpringer_def
      springer_try_def safeFetch_def openalex_fetch_def arxiv_fetch_def semantic_fetch_def
      offline_def)

subsection \<open>The handler when a publisher text need not be text\<close>

text \<open>
  On a typed Springer payload the handler is \<open>papers_route\<close>; it raises as soon as the
  Springer adapter contributes a paper whose source is not a string.
\<close>

lemma springer_loose_paper_typed:
  "springer_loose_paper (map_option item_of elem) = map_sum id loose (springer_paper elem)"
  by (cases elem)
     (auto simp: springer_loose_paper_def springer_paper_def item_of_def loose_def or_value_def
       or_str_def truthy_def split: option.splits)

lemma map_exn_map_sum:
  assumes "\<And>x. f (g x) = map_sum id h (k x)"
  shows "map_exn f (map g xs) = map_sum id (map h) (map_exn k xs)"
  by (induction xs) (auto simp: assms split: sum.splits)

lemma fetchSpringer_loose_typed:
  "fetchSpringer_loose key (typed_springer world) topic =
     map loose (fetchSpringer key (springer_api world) topic)"
proof (cases "springer_api world (springer_request key topic)")
  case (Inl e)
  then show ?thesis
    by (simp add: fetchSpringer_loose_def fetchSpringer_def springer_try_def typed_springer_def)
next
  case (Inr d)
  have "map_exn springer_loose_paper (map (map_option item_of) rs) =
      map_sum id (map loose) (map_exn springer_paper rs)" for rs
    by (rule map_exn_map_sum) (rule springer_loose_paper_typed)
  then show ?thesis
    using Inr
    by (cases "sp_records d")
       (auto simp: fetchSpringer_loose_def fetchSpringer_def springer_try_def typed_springer_def
         items_of_def split: sum.splits)
qed

lemma badged_loose: "badged cy (loose p) = Inr (p\<lparr>tags := assignBadges cy p\<rparr>)"
  by (simp add: badged_def loose_def assignBadges_def)

lemma map_exn_badged_loose: "map_exn (badged cy) (map loose ps) = Inr (with_badges cy ps)"
  by (induction ps) (simp_all add: badged_loose with_badges_def)

lemma fetch_loose_typed:
  "fetch_loose key world (typed_springer world) topic = map loose (fetch_all key world topic)"
  by (simp add: fetch_loose_def fetch_all_def fetchSpringer_loose_typed)

lemma papers_handler_miss:
  assumes "topicCache_get st (or_str q []) = None"
    and "map_exn (badged cy) (fetch_loose key world springer (or_str q [])) = Inr allPapers"
  shows "papers_handler e key world springer cy st q =
     Inr (st\<lparr>store := store st @ [array_sort (engine_cmp e cy) allPapers],
             cachedPapers := length (store st),
             topicCache := (topicCache st)(or_str q [] \<mapsto> length (store st))\<rparr>,
          requests_sent key (or_str q []),
          Papers (array_sort (engine_cmp e cy) allPapers))"
  using assms by (simp add: papers_handler_def Let_def)

lemma papers_handler_typed:
  "papers_handler exact_engine key world (typed_springer world) cy st q =
     Inr (papers_route key world cy st q)"
proof -
  have "engine_cmp exact_engine cy = trending_cmp cy"
    using exact_engine_props [of cy] by blast
  then show ?thesis
    by (simp add: papers_handler_def papers_route_def Let_def fetch_loose_typed
        map_exn_badged_loose split: option.splits cache_value.splits)
qed

lemma handler_raises_on_loose_source:
  assumes "topicCache_get st (or_str q []) = None"
    and "p \<in> set (fetchSpringer_loose key springer (or_str q []))"
    and "\<forall>s. l_source p \<noteq> JsString s"
  shows "\<exists>err. papers_handler e key world springer cy st q = Inl err"
proof -
  let ?all = "fetch_loose key world springer (or_str q [])"
  from assms(3) have raise: "badged cy p = Inl TypeError"
    by (cases "l_source p") (simp_all add: badged_def)
  have mem: "p \<in> set ?all" using assms(2) by (simp add: fetch_loose_def)
  from map_exn_raises [of p ?all "badged cy" TypeError, OF mem raise]
  obtain err where "map_exn (badged cy) ?all = Inl err" ..
  then show ?thesis
    using assms(1) by (simp add: papers_handler_def Let_def)
qed

section \<open>The claims\<close>

text \<open>
  Claim C1. For every Corpus and every index \<open>i\<close> within its bounds, \<^verbatim>\<open>/related\<close> answers
  with the clicked paper and with the papers of a list \<open>rs\<close> of scored entries such that:
  the clicked position does not occur in \<open>rs\<close>; \<open>rs\<close> has at most five entries, at
  distinct positions; every entry is the paper at its position, carries the TF-IDF
  score of that position against the clicked paper's document, and that score is
  strictly positive; \<open>rs\<close> is in descending score order, equal scores in Corpus order;
  a paper with a positive score that is left out ranks after each of the five
  returned; and the score recorded for the clicked position is \<open>-1\<close>. The clicked paper
  itself is the object at position \<open>i\<close>: another object with equal fields is another
  paper.
\<close>

theorem related_top_five:
  assumes "0 \<le> i" and "i < int (length (corpus st))"
  shows "let rs = related_scored tfidf (corpus st) (nat i) in
     related tfidf st (Some i) = Related (corpus st ! nat i) (map entry rs) \<and>
     length rs \<le> 5 \<and>
     nat i \<notin> pos ` set rs \<and>
     distinct (map pos rs) \<and>
     (\<forall>s\<in>set rs. pos s < length (corpus st) \<and> entry s = corpus st ! pos s \<and>
        score s = similarity tfidf (corpus st) (nat i) (pos s) \<and> 0 < score s) \<and>
     sorted_wrt ranks_before rs \<and>
     (\<forall>j. j < length (corpus st) \<and> j \<noteq> nat i \<and>
          0 < similarity tfidf (corpus st) (nat i) j \<and> j \<notin> pos ` set rs \<longrightarrow>
          length rs = 5 \<and>
          (\<forall>s\<in>set rs. similarity tfidf (corpus st) (nat i) j < score s \<or>
             (similarity tfidf (corpus st) (nat i) j = score s \<and> pos s < j))) \<and>
     score (scores tfidf (corpus st) (nat i) ! nat i) = - 1"
proof -
  let ?all = "ranking tfidf (corpus st) (nat i)"
  have sub: "set (take 5 ?all) \<subseteq> set ?all" by (rule set_take_subset)
  have a: "related tfidf st (Some i) = Related (corpus st ! nat i) (map entry (take 5 ?all))"
    using assms by (simp add: related_in_bounds related_scored_ranking)
  have b: "length (take 5 ?all) \<le> 5" by simp
  have c: "\<forall>s\<in>set (take 5 ?all). pos s \<noteq> nat i \<and> pos s < length (corpus st) \<and>
      entry s = corpus st ! pos s \<and>
      score s = similarity tfidf (corpus st) (nat i) (pos s) \<and> 0 < score s"
    using sub ranking_member by blast
  have d: "distinct (map pos (take 5 ?all))"
    using distinct_pos_ranking [of tfidf "corpus st" "nat i"] by (simp add: take_map [symmetric])
  have e: "sorted_wrt ranks_before (take 5 ?all)"
    using sorted_ranking [of tfidf "corpus st" "nat i"] by (rule sorted_wrt_take)
  have f: "score (scores tfidf (corpus st) (nat i) ! nat i) = - 1"
    using assms by (simp add: scores_eq scored_at_def)
  have g: "nat i \<notin> pos ` set (take 5 ?all)" using c by auto
  show ?thesis
    unfolding Let_def related_scored_ranking
    using a b c d e f g left_out_ranks_after [of _ "corpus st" "nat i" tfidf]
    by (intro conjI allI impI) blast+
qed

theorem related_top_five_witness:
  "(0::int) \<le> 0 \<and> 0 < int (length (corpus sample_state)) \<and>
   related (\<lambda>docs text j. real j) sample_state (Some 0) =
     Related (sample_paper ''a'' 0 0) [sample_paper ''c'' 0 0, sample_paper ''b'' 0 0]"
  using related_top_five [of 0 sample_state "\<lambda>docs text j. real j"]
  by (simp add: corpus_def sample_state_def related_def related_scored_def scores_def
      array_sort_def Let_def)

text \<open>
  Claim C2, as amended. The trending sort orders the papers descending by the score
  \<open>ln (citations + 1) + (year \<noteq> 0 ? (currentYear - year) * -0.5 : 0)\<close> as the engine
  computes it: the sorted array is a permutation of the aggregated list and is in
  descending order of the computed score, for every engine whose subtraction keeps the
  sign. The recency term is applied to every year other than 0: the score is the
  specification's, guarded by \<open>year > 0\<close>, for every year that is not negative, and a
  paper of year 0 has no recency term, whatever the current year. For equal citations
  and two years other than 0, the paper that is not older has a score that is not
  smaller; for equal years, the paper with at least as many citations has a score at
  least as large; both for every engine whose rounding and logarithm preserve order.
  On a cache miss on which assigning the badges does not raise, the reply of the
  handler is the badged list sorted with the comparator of the engine.
\<close>

theorem trending_order:
  "(keeps_sign e \<longrightarrow>
      sorted_wrt (\<lambda>a b. engine_score e cy b \<le> engine_score e cy a)
        (array_sort (engine_cmp e cy) ps)) \<and>
   mset (array_sort (engine_cmp e cy) ps) = mset ps \<and>
   (0 \<le> year p \<longrightarrow> engine_score e cy p = spec_engine_score e cy p) \<and>
   (year p = 0 \<longrightarrow>
      engine_score e cy p = rnd e (Math_log e (rnd e (real (citations p) + 1)))) \<and>
   (year a \<noteq> 0 \<longrightarrow>
      engine_score e cy a =
        rnd e (Math_log e (rnd e (real (citations a) + 1)) +
               rnd e (rnd e (real_of_int (cy - year a)) * (- 0.5)))) \<and>
   (order_preserving e \<and> citations a = citations b \<and> year a \<noteq> 0 \<and> year b \<noteq> 0 \<and>
    cy - year a \<le> cy - year b \<longrightarrow>
      engine_score e cy b \<le> engine_score e cy a) \<and>
   (order_preserving e \<and> year c = year d \<and> citations c \<le> citations d \<longrightarrow>
      engine_score e cy c \<le> engine_score e cy d) \<and>
   (topicCache_get st (or_str q []) = None \<and>
    map_exn (badged cy) (fetch_loose key world springer (or_str q [])) = Inr allPapers \<longrightarrow>
      map_sum id (\<lambda>r. snd (snd r)) (papers_handler e key world springer cy st q) =
        Inr (Papers (array_sort (engine_cmp e cy) allPapers)))"
proof (intro conjI impI)
  show "sorted_wrt (\<lambda>a b. engine_score e cy b \<le> engine_score e cy a)
      (array_sort (engine_cmp e cy) ps)" if "keeps_sign e"
    using that by (rule sorted_array_sort_engine)
  show "mset (array_sort (engine_cmp e cy) ps) = mset ps"
    by (rule mset_array_sort)
  show "engine_score e cy p = spec_engine_score e cy p" if "0 \<le> year p"
    using that by (simp add: engine_score_def spec_engine_score_def)
  show "engine_score e cy p = rnd e (Math_log e (rnd e (real (citations p) + 1)))"
    if "year p = 0"
    using that by (simp add: engine_score_def)
  show "engine_score e cy a =
      rnd e (Math_log e (rnd e (real (citations a) + 1)) +
             rnd e (rnd e (real_of_int (cy - year a)) * (- 0.5)))"
    if "year a \<noteq> 0"
    using that by (simp add: engine_score_def)
  show "engine_score e cy b \<le> engine_score e cy a"
    if "order_preserving e \<and> citations a = citations b \<and> year a \<noteq> 0 \<and> year b \<noteq> 0 \<and>
      cy - year a \<le> cy - year b"
    using that by (intro engine_score_older) simp_all
  show "engine_score e cy c \<le> engine_score e cy d"
    if "order_preserving e \<and> year c = year d \<and> citations c \<le> citations d"
    using that by (intro engine_score_more_cited) simp_all
  show "map_sum id (\<lambda>r. snd (snd r)) (papers_handler e key world springer cy st q) =
        Inr (Papers (array_sort (engine_cmp e cy) allPapers))"
    if "topicCache_get st (or_str q []) = None \<and>
      map_exn (badged cy) (fetch_loose key world springer (or_str q [])) = Inr allPapers"
    using that by (simp add: papers_handler_miss)
qed

theorem trending_order_witness:
  "keeps_sign exact_engine \<and>
   0 \<le> year (sample_paper ''p'' 0 7) \<and> year (sample_paper ''p'' 0 7) = 0 \<and>
   year (sample_paper ''a'' 2024 3) \<noteq> 0 \<and>
   (order_preserving exact_engine \<and>
    citations (sample_paper ''a'' 2024 3) = citations (sample_paper ''b'' 2020 3) \<and>
    year (sample_paper ''a'' 2024 3) \<noteq> 0 \<and> year (sample_paper ''b'' 2020 3) \<noteq> 0 \<and>
    2026 - year (sample_paper ''a'' 2024 3) \<le> 2026 - year (sample_paper ''b'' 2020 3)) \<and>
   (order_preserving exact_engine \<and>
    year (sample_paper ''c'' 2021 3) = year (sample_paper ''d'' 2021 4) \<and>
    citations (sample_paper ''c'' 2021 3) \<le> citations (sample_paper ''d'' 2021 4)) \<and>
   (topicCache_get init (or_str (Some ''t'') []) = None \<and>
    map_exn (badged 2026)
      (fetch_loose None
         (sample_world [Some (sample_work ''x'' 2020 0), Some (sample_work ''y'' 2024 0)] [])
         (typed_springer
            (sample_world [Some (sample_work ''x'' 2020 0), Some (sample_work ''y'' 2024 0)] []))
         (or_str (Some ''t'') [])) =
      Inr [sample_paper ''x'' 2020 0, sample_paper ''y'' 2024 0]) \<and>
   sorted_wrt (\<lambda>a b. engine_score exact_engine 2026 b \<le> engine_score exact_engine 2026 a)
     (array_sort (engine_cmp exact_engine 2026)
        [sample_paper ''x'' 2020 0, sample_paper ''y'' 2024 0]) \<and>
   engine_score exact_engine 2026 (sample_paper ''p'' 0 7) = ln 8 \<and>
   engine_score exact_engine 2026 (sample_paper ''a'' 2024 3) = ln 4 - 1 \<and>
   engine_score exact_engine 2026 (sample_paper ''b'' 2020 3) \<le>
     engine_score exact_engine 2026 (sample_paper ''a'' 2024 3) \<and>
   engine_score exact_engine 2026 (sample_paper ''c'' 2021 3) \<le>
     engine_score exact_engine 2026 (sample_paper ''d'' 2021 4) \<and>
   map_sum id (\<lambda>r. snd (snd r))
     (papers_handler exact_engine None
        (sample_world [Some (sample_work ''x'' 2020 0), Some (sample_work ''y'' 2024 0)] [])
        (typed_springer
           (sample_world [Some (sample_work ''x'' 2020 0), Some (sample_work ''y'' 2024 0)] []))
        2026 init (Some ''t'')) =
     Inr (Papers [sample_paper ''y'' 2024 0, sample_paper ''x'' 2020 0])"
proof -
  let ?w = "sample_world [Some (sample_work ''x'' 2020 0), Some (sample_work ''y'' 2024 0)] []"
  note ex = exact_engine_props [of 2026]
  have ks: "keeps_sign exact_engine" and op: "order_preserving exact_engine"
    using ex by blast+
  have hyps: "0 \<le> year (sample_paper ''p'' 0 7)" "year (sample_paper ''p'' 0 7) = 0"
    "year (sample_paper ''a'' 2024 3) \<noteq> 0"
    "citations (sample_paper ''a'' 2024 3) = citations (sample_paper ''b'' 2020 3) \<and>
     year (sample_paper ''a'' 2024 3) \<noteq> 0 \<and> year (sample_paper ''b'' 2020 3) \<noteq> 0 \<and>
     2026 - year (sample_paper ''a'' 2024 3) \<le> 2026 - year (sample_paper ''b'' 2020 3)"
    "year (sample_paper ''c'' 2021 3) = year (sample_paper ''d'' 2021 4) \<and>
     citations (sample_paper ''c'' 2021 3) \<le> citations (sample_paper ''d'' 2021 4)"
    by (simp_all add: sample_paper_def)
  have fetched: "map_exn (badged 2026)
      (fetch_loose None ?w (typed_springer ?w) (or_str (Some ''t'') [])) =
      Inr [sample_paper ''x'' 2020 0, sample_paper ''y'' 2024 0]"
    unfolding fetch_loose_typed map_exn_badged_loose
    by (simp add: or_str_def sample_world_fetch_all with_badges_def assignBadges_sample
        tags_sample)
  from trending_order [of exact_engine 2026
      "[sample_paper ''x'' 2020 0, sample_paper ''y'' 2024 0]" "sample_paper ''p'' 0 7"
      "sample_paper ''a'' 2024 3" "sample_paper ''b'' 2020 3"
      "sample_paper ''c'' 2021 3" "sample_paper ''d'' 2021 4" init "Some ''t''" None ?w
      "typed_springer ?w" "[sample_paper ''x'' 2020 0, sample_paper ''y'' 2024 0]"]
    ks op hyps init_miss fetched
  have concl:
    "sorted_wrt (\<lambda>a b. engine_score exact_engine 2026 b \<le> engine_score exact_engine 2026 a)
      (array_sort (engine_cmp exact_engine 2026)
         [sample_paper ''x'' 2020 0, sample_paper ''y'' 2024 0])"
    "engine_score exact_engine 2026 (sample_paper ''p'' 0 7) =
      rnd exact_engine (Math_log exact_engine
        (rnd exact_engine (real (citations (sample_paper ''p'' 0 7)) + 1)))"
    "engine_score exact_engine 2026 (sample_paper ''b'' 2020 3) \<le>
      engine_score exact_engine 2026 (sample_paper ''a'' 2024 3)"
    "engine_score exact_engine 2026 (sample_paper ''c'' 2021 3) \<le>
      engine_score exact_engine 2026 (sample_paper ''d'' 2021 4)"
    "map_sum id (\<lambda>r. snd (snd r))
      (papers_handler exact_engine None ?w (typed_springer ?w) 2026 init (Some ''t'')) =
      Inr (Papers (array_sort (engine_cmp exact_engine 2026)
        [sample_paper ''x'' 2020 0, sample_paper ''y'' 2024 0]))"
    "engine_score exact_engine 2026 (sample_paper ''a'' 2024 3) =
      rnd exact_engine (Math_log exact_engine
          (rnd exact_engine (real (citations (sample_paper ''a'' 2024 3)) + 1)) +
        rnd exact_engine (rnd exact_engine
          (real_of_int (2026 - year (sample_paper ''a'' 2024 3))) * (- 0.5)))"
    by blast+
  from concl(6) have a: "engine_score exact_engine 2026 (sample_paper ''a'' 2024 3) = ln 4 - 1"
    by (simp add: exact_engine_def sample_paper_def)
  from concl(2) have p: "engine_score exact_engine 2026 (sample_paper ''p'' 0 7) = ln 8"
    by (simp add: exact_engine_def sample_paper_def)
  have srt: "array_sort (engine_cmp exact_engine 2026)
      [sample_paper ''x'' 2020 0, sample_paper ''y'' 2024 0] =
      [sample_paper ''y'' 2024 0, sample_paper ''x'' 2020 0]"
    using ex by (simp add: array_sort_def trending_cmp_def trending_score_sample)
  from concl(5) srt have reply: "map_sum id (\<lambda>r. snd (snd r))
      (papers_handler exact_engine None ?w (typed_springer ?w) 2026 init (Some ''t'')) =
      Inr (Papers [sample_paper ''y'' 2024 0, sample_paper ''x'' 2020 0])"
    by (simp only:)
  from ks op hyps init_miss fetched concl(1,3,4) p a reply show ?thesis by blast
qed

text \<open>
  Claim C2 as stated fails on a negative year, which is truthy: the paper of year \<open>-1\<close>
  gets the recency term (score \<open>-1013.5\<close>) and is ranked after the paper of 2020 (score
  \<open>-3\<close>), while the specification's score for it is 0, above \<open>-3\<close>.
\<close>

theorem trending_order_counterexample:
  "snd (snd (papers_route None
      (sample_world [Some (sample_work ''old'' (- 1) 0), Some (sample_work ''recent'' 2020 0)] [])
      2026 init (Some ''t''))) =
     Papers [sample_paper ''recent'' 2020 0, sample_paper ''old'' (- 1) 0] \<and>
   spec_trending_score 2026 (sample_paper ''recent'' 2020 0) <
     spec_trending_score 2026 (sample_paper ''old'' (- 1) 0)"
proof -
  have miss: "topicCache_get init (or_str (Some ''t'') []) = None"
    by (simp add: topicCache_get_def init_def or_str_def object_prototype_names_def)
  have "ranked_list None
      (sample_world [Some (sample_work ''old'' (- 1) 0), Some (sample_work ''recent'' 2020 0)] [])
      2026 ''t'' = [sample_paper ''recent'' 2020 0, sample_paper ''old'' (- 1) 0]"
    by (simp add: ranked_list_def sample_world_fetch_all with_badges_def assignBadges_sample
        tags_sample array_sort_def trending_cmp_def trending_score_sample)
  moreover have "spec_trending_score 2026 (sample_paper ''recent'' 2020 0) <
      spec_trending_score 2026 (sample_paper ''old'' (- 1) 0)"
    by (simp add: spec_trending_score_def sample_paper_def)
  ultimately show ?thesis
    by (simp add: papers_route_miss [OF miss] or_str_def)
qed

text \<open>
  Claim C3. \<^verbatim>\<open>normalizeSource\<close> yields \<open>Unknown\<close> for a missing or empty input; for any other
  input it yields the label of the first row of the table whose key occurs in the
  input as a substring, case-insensitively; and when no key occurs it yields the input
  with its first character in upper case and every later character in lower case, so
  that only the first character is capitalized. In particular
  \<open>IEEE Transactions\<close> gives \<open>IEEE\<close>, the empty string \<open>Unknown\<close> and \<open>randomjournal\<close>
  gives \<open>Randomjournal\<close>.
\<close>

theorem normalizeSource_table:
  "normalizeSource raw =
     (case raw of
        None \<Rightarrow> ''Unknown''
      | Some s \<Rightarrow>
          if s = [] then ''Unknown''
          else (case find (\<lambda>(key, label). matches_ci key s) source_table of
                  Some (key, label) \<Rightarrow> label
                | None \<Rightarrow> toUpperCase (take 1 s) @ toLowerCase (drop 1 s))) \<and>
   normalizeSource (Some ''IEEE Transactions'') = ''IEEE'' \<and>
   normalizeSource (Some []) = ''Unknown'' \<and>
   normalizeSource None = ''Unknown'' \<and>
   normalizeSource (Some ''randomjournal'') = ''Randomjournal''"
proof (intro conjI)
  show "normalizeSource raw =
     (case raw of
        None \<Rightarrow> ''Unknown''
      | Some s \<Rightarrow>
          if s = [] then ''Unknown''
          else (case find (\<lambda>(key, label). matches_ci key s) source_table of
                  Some (key, label) \<Rightarrow> label
                | None \<Rightarrow> toUpperCase (take 1 s) @ toLowerCase (drop 1 s)))"
    by (rule norm_char)
  show "normalizeSource (Some ''IEEE Transactions'') = ''IEEE''"
    by (simp add: normalizeSource_def toLowerCase_def lower_char_def upper_letters_def
        lower_letters_def)
  show "normalizeSource (Some []) = ''Unknown''"
    by (simp add: normalizeSource_def)
  show "normalizeSource None = ''Unknown''"
    by (simp add: normalizeSource_def)
  show "normalizeSource (Some ''randomjournal'') = ''Randomjournal''"
    by (simp add: normalizeSource_def toLowerCase_def toUpperCase_def lower_char_def
        upper_char_def upper_letters_def lower_letters_def charAt0_def slice1_def)
qed

text \<open>
  Claim C4. \<^verbatim>\<open>assignBadges\<close> yields \<open>Highly Cited\<close> iff \<open>citations \<ge> 50\<close>, \<open>Open Access\<close> iff
  the source contains \<open>arxiv\<close> case-insensitively, \<open>New\<close> iff \<open>year \<ge> currentYear - 1\<close>,
  and nothing else, each badge once; a paper with 50 citations, source \<open>arXiv\<close> and the
  current year gets exactly the three. The badges do not depend on the tags a paper
  already has, and the list a \<^verbatim>\<open>/papers\<close> request builds is, up to order, the list of the
  adapters' papers with the tags of each replaced by its badges: every paper of the
  reply carries exactly its badges.
\<close>

theorem assignBadges_rules:
  "(''Highly Cited'' \<in> set (assignBadges cy p) \<longleftrightarrow> 50 \<le> citations p) \<and>
   (''Open Access'' \<in> set (assignBadges cy p) \<longleftrightarrow> matches_ci ''arxiv'' (source p)) \<and>
   (''New'' \<in> set (assignBadges cy p) \<longleftrightarrow> cy - 1 \<le> year p) \<and>
   set (assignBadges cy p) \<subseteq> {''Highly Cited'', ''Open Access'', ''New''} \<and>
   distinct (assignBadges cy p) \<and>
   (citations p = 50 \<and> source p = ''arXiv'' \<and> year p = cy \<longrightarrow>
      set (assignBadges cy p) = {''Highly Cited'', ''Open Access'', ''New''}) \<and>
   mset (ranked_list key world cy topic) =
     mset (map (\<lambda>p. p\<lparr>tags := assignBadges cy p\<rparr>) (fetch_all key world topic)) \<and>
   (\<forall>r\<in>set (ranked_list key world cy topic). tags r = assignBadges cy r) \<and>
   (topicCache_get st (or_str q []) = None \<longrightarrow>
      snd (snd (papers_route key world cy st q)) = Papers (ranked_list key world cy (or_str q [])))"
proof (intro conjI impI)
  show "''Highly Cited'' \<in> set (assignBadges cy p) \<longleftrightarrow> 50 \<le> citations p"
    by (simp add: assignBadges_def)
  show "''Open Access'' \<in> set (assignBadges cy p) \<longleftrightarrow> matches_ci ''arxiv'' (source p)"
    by (simp add: assignBadges_def includes_lower_iff)
  show "''New'' \<in> set (assignBadges cy p) \<longleftrightarrow> cy - 1 \<le> year p"
    by (simp add: assignBadges_def)
  show "set (assignBadges cy p) \<subseteq> {''Highly Cited'', ''Open Access'', ''New''}"
    by (auto simp: assignBadges_def)
  show "distinct (assignBadges cy p)"
    by (simp add: assignBadges_def)
  show "set (assignBadges cy p) = {''Highly Cited'', ''Open Access'', ''New''}"
    if "citations p = 50 \<and> source p = ''arXiv'' \<and> year p = cy"
    using that by (simp add: assignBadges_def toLowerCase_def lower_char_def upper_letters_def
        lower_letters_def)
  show "mset (ranked_list key world cy topic) =
      mset (map (\<lambda>p. p\<lparr>tags := assignBadges cy p\<rparr>) (fetch_all key world topic))"
    by (simp only: mset_ranked_list with_badges_def)
  show "\<forall>r\<in>set (ranked_list key world cy topic). tags r = assignBadges cy r"
    unfolding set_ranked_list by (rule badges_of_with_badges)
  show "snd (snd (papers_route key world cy st q)) = Papers (ranked_list key world cy (or_str q []))"
    if "topicCache_get st (or_str q []) = None"
    by (simp add: papers_route_miss [OF that])
qed

theorem assignBadges_rules_witness:
  "(citations ((sample_paper ''p'' 2026 50)\<lparr>source := ''arXiv''\<rparr>) = 50 \<and>
    source ((sample_paper ''p'' 2026 50)\<lparr>source := ''arXiv''\<rparr>) = ''arXiv'' \<and>
    year ((sample_paper ''p'' 2026 50)\<lparr>source := ''arXiv''\<rparr>) = 2026) \<and>
   topicCache_get init (or_str (Some ''t'') []) = None \<and>
   set (assignBadges 2026 ((sample_paper ''p'' 2026 50)\<lparr>source := ''arXiv''\<rparr>)) =
     {''Highly Cited'', ''Open Access'', ''New''} \<and>
   fetch_all None (sample_world [] [Some (sample_record ''s'' [''Physics''])]) ''t'' =
     [sample_springer_paper ''s'' [''Physics'']] \<and>
   snd (snd (papers_route None (sample_world [] [Some (sample_record ''s'' [''Physics''])])
      2026 init (Some ''t''))) = Papers [sample_springer_paper ''s'' []]"
proof -
  let ?p = "(sample_paper ''p'' 2026 50)\<lparr>source := ''arXiv''\<rparr>"
  let ?w = "sample_world [] [Some (sample_record ''s'' [''Physics''])]"
  have t: "or_str (Some ''t'') [] = ''t''" by (simp add: or_str_def)
  have hyp: "citations ?p = 50 \<and> source ?p = ''arXiv'' \<and> year ?p = 2026"
    by (simp add: sample_paper_def)
  have fa: "fetch_all None ?w ''t'' = [sample_springer_paper ''s'' [''Physics'']]"
    by (simp add: fetch_all_parts safeFetch_def openalex_fetch_def arxiv_fetch_def
        semantic_fetch_def sample_world_def fetchSpringer_def springer_try_def
        springer_paper_sample)
  have "assignBadges 2026 (sample_springer_paper ''s'' [''Physics'']) = []"
    by (simp add: assignBadges_def sample_springer_paper_def toLowerCase_def lower_char_def
        upper_letters_def lower_letters_def)
  then have rl: "ranked_list None ?w 2026 ''t'' = [sample_springer_paper ''s'' []]"
    by (simp add: ranked_list_def fa with_badges_def array_sort_def sample_springer_paper_def)
  from assignBadges_rules [of 2026 ?p None ?w "''t''" init "Some ''t''"] hyp init_miss
  have "set (assignBadges 2026 ?p) = {''Highly Cited'', ''Open Access'', ''New''}"
    "snd (snd (papers_route None ?w 2026 init (Some ''t''))) = Papers (ranked_list None ?w 2026 ''t'')"
    unfolding t by blast+
  then show ?thesis using hyp init_miss fa rl by simp
qed

text \<open>
  Claim C5 evaluated. A Springer record whose \<^verbatim>\<open>publisher.text\<close> is the number 5 passes
  through \<^verbatim>\<open>fetchSpringer\<close>, which returns a paper whose source is 5; the handler then
  raises a TypeError where it assigns the badges, outside every \<^verbatim>\<open>try\<close>, with every
  other provider failing: it neither replies nor caches. For the topic \<open>constructor\<close>
  the handler replies with the member the cache object inherits, not with a list,
  whatever the providers do.
\<close>

theorem springer_source_raises:
  "fetchSpringer_loose None (\<lambda>r. Inr \<lparr>it_records = Some [Some bad_item]\<rparr>) ''t'' =
     [(loose (sample_springer_paper ''s'' []))\<lparr>l_source := JsNumber 5\<rparr>] \<and>
   papers_handler e None offline (\<lambda>r. Inr \<lparr>it_records = Some [Some bad_item]\<rparr>) 2026 init
     (Some ''t'') = Inl TypeError \<and>
   papers_handler e None offline (typed_springer offline) 2026 init (Some ''constructor'') =
     Inr (init, [], PapersBuiltin ''constructor'')"
proof (intro conjI)
  show sp: "fetchSpringer_loose None (\<lambda>r. Inr \<lparr>it_records = Some [Some bad_item]\<rparr>) ''t'' =
     [(loose (sample_springer_paper ''s'' []))\<lparr>l_source := JsNumber 5\<rparr>]"
    by (simp add: fetchSpringer_loose_def springer_loose_paper_def bad_item_def loose_def
        sample_springer_paper_def or_str_def or_0_def or_value_def truthy_def)
  have t: "or_str (Some ''t'') [] = ''t''" by (simp add: or_str_def)
  show "papers_handler e None offline (\<lambda>r. Inr \<lparr>it_records = Some [Some bad_item]\<rparr>) 2026 init
     (Some ''t'') = Inl TypeError"
    using init_miss offline_adapters [of "''t''"]
    by (simp add: papers_handler_def fetch_loose_def Let_def t sp badged_def loose_def)
  have "topicCache_get init (or_str (Some ''constructor'') []) = Some (Builtin ''constructor'')"
    by (simp add: topicCache_get_def init_def or_str_def object_prototype_names_def)
  then show "papers_handler e None offline (typed_springer offline) 2026 init (Some ''constructor'') =
     Inr (init, [], PapersBuiltin ''constructor'')"
    by (simp add: papers_handler_def Let_def)
qed

text \<open>
  Claim C6. \<^verbatim>\<open>/related\<close> answers \<open>NotFound\<close> exactly when the index is not a number or lies
  outside the bounds of the current Corpus; in particular for \<open>-1\<close> and for the size of
  the Corpus. It has no other failure.
\<close>

theorem related_not_found:
  "(related tfidf st index = NotFound \<longleftrightarrow>
      (case index of None \<Rightarrow> True | Some i \<Rightarrow> i < 0 \<or> int (length (corpus st)) \<le> i)) \<and>
   related tfidf st (Some (- 1)) = NotFound \<and>
   related tfidf st (Some (int (length (corpus st)))) = NotFound \<and>
   related_route tfidf st (Some ''-1'') = NotFound \<and>
   related_route tfidf st None = NotFound"
proof (intro conjI)
  show "related tfidf st index = NotFound \<longleftrightarrow>
      (case index of None \<Rightarrow> True | Some i \<Rightarrow> i < 0 \<or> int (length (corpus st)) \<le> i)"
    by (cases index) (simp_all add: related_def corpus_def Let_def)
  show "related tfidf st (Some (- 1)) = NotFound"
    by (simp add: related_def Let_def)
  show "related tfidf st (Some (int (length (corpus st)))) = NotFound"
    by (simp add: related_def corpus_def Let_def)
  have "parseInt ''-1'' = Some (- 1)"
    by code_simp
  then show "related_route tfidf st (Some ''-1'') = NotFound"
    by (simp add: related_route_def related_def Let_def)
  show "related_route tfidf st None = NotFound"
    by (simp add: related_route_def related_def Let_def)
qed

text \<open>
  Claim C7. For every state and topic, a second \<^verbatim>\<open>/papers\<close> request for the same topic
  string right after a first one returns the reply of the first, sends no request to
  any provider and leaves the state as it is, whatever the providers would answer and
  whatever the year then is. When the first request missed the cache, it sent the four
  requests and both replies are the list ranked by the first. Storing a topic creates
  no entry for a different string.
\<close>

theorem cache_idempotent:
  "papers_route key world' cy' (fst (papers_route key world cy st q)) q =
     (fst (papers_route key world cy st q), [], snd (snd (papers_route key world cy st q))) \<and>
   (topicCache_get st (or_str q []) = None \<longrightarrow>
      snd (papers_route key world cy st q) =
        (requests_sent key (or_str q []), Papers (ranked_list key world cy (or_str q []))) \<and>
      snd (papers_route key world' cy' (fst (papers_route key world cy st q)) q) =
        ([], Papers (ranked_list key world cy (or_str q [])))) \<and>
   (topicCache_get st t = None \<and> t \<noteq> or_str q [] \<longrightarrow>
      topicCache_get (fst (papers_route key world cy st q)) t = None)"
proof (intro conjI impI)
  show twice: "papers_route key world' cy' (fst (papers_route key world cy st q)) q =
     (fst (papers_route key world cy st q), [], snd (snd (papers_route key world cy st q)))"
    by (rule papers_route_twice)
  show "snd (papers_route key world cy st q) =
        (requests_sent key (or_str q []), Papers (ranked_list key world cy (or_str q [])))"
    if "topicCache_get st (or_str q []) = None"
    by (simp add: papers_route_miss [OF that])
  show "snd (papers_route key world' cy' (fst (papers_route key world cy st q)) q) =
        ([], Papers (ranked_list key world cy (or_str q [])))"
    if "topicCache_get st (or_str q []) = None"
    unfolding twice by (simp add: papers_route_miss [OF that])
  show "topicCache_get (fst (papers_route key world cy st q)) t = None"
    if "topicCache_get st t = None \<and> t \<noteq> or_str q []"
  proof (cases st "or_str q []" rule: topicCache_get_cases)
    case miss
    with that show ?thesis
      by (simp add: papers_route_miss [OF miss(1)] topicCache_get_def)
  next
    case (array r)
    with that show ?thesis by (simp add: papers_route_hit_array)
  next
    case builtin
    with that show ?thesis by (simp add: papers_route_hit_builtin)
  qed
qed

theorem cache_idempotent_witness:
  "topicCache_get init (or_str (Some ''t'') []) = None \<and>
   (topicCache_get init ''T'' = None \<and> ''T'' \<noteq> or_str (Some ''t'') []) \<and>
   snd (papers_route None
      (sample_world [Some (sample_work ''x'' 2020 0), Some (sample_work ''y'' 2024 0)] [])
      2026 init (Some ''t'')) =
     (requests_sent None ''t'', Papers [sample_paper ''y'' 2024 0, sample_paper ''x'' 2020 0]) \<and>
   snd (papers_route None offline 2027
      (fst (papers_route None
         (sample_world [Some (sample_work ''x'' 2020 0), Some (sample_work ''y'' 2024 0)] [])
         2026 init (Some ''t''))) (Some ''t'')) =
     ([], Papers [sample_paper ''y'' 2024 0, sample_paper ''x'' 2020 0]) \<and>
   topicCache_get (fst (papers_route None
      (sample_world [Some (sample_work ''x'' 2020 0), Some (sample_work ''y'' 2024 0)] [])
      2026 init (Some ''t''))) ''T'' = None"
proof -
  let ?w = "sample_world [Some (sample_work ''x'' 2020 0), Some (sample_work ''y'' 2024 0)] []"
  have other: "topicCache_get init ''T'' = None \<and> ''T'' \<noteq> or_str (Some ''t'') []"
    by (simp add: topicCache_get_def init_def or_str_def object_prototype_names_def)
  have t: "or_str (Some ''t'') [] = ''t''" by (simp add: or_str_def)
  from cache_idempotent [of None offline 2027 ?w 2026 init "Some ''t''" "''T''"] init_miss other
  have "snd (papers_route None ?w 2026 init (Some ''t'')) =
      (requests_sent None (or_str (Some ''t'') []),
       Papers (ranked_list None ?w 2026 (or_str (Some ''t'') [])))"
    and "snd (papers_route None offline 2027 (fst (papers_route None ?w 2026 init (Some ''t'')))
        (Some ''t'')) = ([], Papers (ranked_list None ?w 2026 (or_str (Some ''t'') [])))"
    and "topicCache_get (fst (papers_route None ?w 2026 init (Some ''t''))) ''T'' = None"
    by blast+
  then show ?thesis
    using init_miss other by (simp add: sample_world_ranked t)
qed




text \<open>
  Claim C9 evaluated. The requests to OpenAlex, arXiv and Semantic Scholar carry a
  result count of 5. The request of \<^verbatim>\<open>fetchSpringer\<close> carries the key and the query and
  no count, and the adapter maps every record of the answer: on an answer of six
  records it contributes six papers.
\<close>

theorem springer_request_unbounded:
  "set (map fst (params (springer_request key topic))) \<subseteq> {''api_key'', ''q''} \<and>
   (''per_page'', ''5'') \<in> set (params (openalex_request topic)) \<and>
   (''max_results'', ''5'') \<in> set (params (arxiv_request topic)) \<and>
   (''limit'', ''5'') \<in> set (params (semantic_request topic)) \<and>
   fetchSpringer None (springer_api (sample_world [] six_records)) ''t'' =
     [sample_springer_paper ''s1'' [], sample_springer_paper ''s2'' [],
      sample_springer_paper ''s3'' [], sample_springer_paper ''s4'' [],
      sample_springer_paper ''s5'' [], sample_springer_paper ''s6'' []] \<and>
   length (fetch_all None (sample_world [] six_records) ''t'') = 6"
proof (intro conjI)
  show "set (map fst (params (springer_request key topic))) \<subseteq> {''api_key'', ''q''}"
    by (cases key) (simp_all add: springer_request_def)
  show "(''per_page'', ''5'') \<in> set (params (openalex_request topic))"
    by (simp add: openalex_request_def)
  show "(''max_results'', ''5'') \<in> set (params (arxiv_request topic))"
    by (simp add: arxiv_request_def)
  show "(''limit'', ''5'') \<in> set (params (semantic_request topic))"
    by (simp add: semantic_request_def)
  show sp: "fetchSpringer None (springer_api (sample_world [] six_records)) ''t'' =
     [sample_springer_paper ''s1'' [], sample_springer_paper ''s2'' [],
      sample_springer_paper ''s3'' [], sample_springer_paper ''s4'' [],
      sample_springer_paper ''s5'' [], sample_springer_paper ''s6'' []]"
    by (simp add: fetchSpringer_def springer_try_def sample_world_def six_records_def
        springer_paper_sample)
  show "length (fetch_all None (sample_world [] six_records) ''t'') = 6"
    unfolding fetch_all_parts sp
    by (simp add: safeFetch_def openalex_fetch_def arxiv_fetch_def semantic_fetch_def
        sample_world_def)
qed

text \<open>
  Claim C10. From every well-formed state, the reply of a \<^verbatim>\<open>/papers\<close> request is what
  every later request for the same topic string returns, after any run of requests in
  between, without any request to a provider and without a change of state. When the
  request missed the cache and every adapter contributed nothing, that reply is the
  empty list: the cache entry of the topic refers to an empty array, which is truthy.
\<close>

theorem empty_result_memoized:
  assumes "wf st"
  shows "papers_route key world' cy' (run key (fst (papers_route key world cy st q)) calls) q =
       (run key (fst (papers_route key world cy st q)) calls, [],
        snd (snd (papers_route key world cy st q))) \<and>
     (topicCache_get st (or_str q []) = None \<and>
      openalex_adapter world (or_str q []) = [] \<and>
      arxiv_adapter world (or_str q []) = [] \<and>
      semantic_adapter world (or_str q []) = [] \<and>
      fetchSpringer key (springer_api world) (or_str q []) = [] \<longrightarrow>
        snd (snd (papers_route key world cy st q)) = Papers [] \<and>
        topicCache (fst (papers_route key world cy st q)) (or_str q []) = Some (length (store st)) \<and>
        store (fst (papers_route key world cy st q)) ! length (store st) = [])"
proof (intro conjI impI)
  let ?st1 = "fst (papers_route key world cy st q)"
  have "wf ?st1" using assms by (rule wf_papers_route)
  moreover have "served ?st1 (or_str q []) = Some (snd (snd (papers_route key world cy st q)))"
    by (rule served_after_route)
  ultimately have "served (run key ?st1 calls) (or_str q []) =
      Some (snd (snd (papers_route key world cy st q)))"
    using run_keeps by blast
  then show "papers_route key world' cy' (run key ?st1 calls) q =
      (run key ?st1 calls, [], snd (snd (papers_route key world cy st q)))"
    by (rule served_hit)
next
  assume h: "topicCache_get st (or_str q []) = None \<and>
      openalex_adapter world (or_str q []) = [] \<and>
      arxiv_adapter world (or_str q []) = [] \<and>
      semantic_adapter world (or_str q []) = [] \<and>
      fetchSpringer key (springer_api world) (or_str q []) = []"
  then have miss: "topicCache_get st (or_str q []) = None" by simp
  from h have "ranked_list key world cy (or_str q []) = []"
    by (simp add: ranked_list_def fetch_all_def with_badges_def array_sort_def)
  then show "snd (snd (papers_route key world cy st q)) = Papers []"
    and "topicCache (fst (papers_route key world cy st q)) (or_str q []) = Some (length (store st))"
    and "store (fst (papers_route key world cy st q)) ! length (store st) = []"
    by (simp_all add: papers_route_miss [OF miss])
qed

theorem empty_result_memoized_witness:
  "wf init \<and>
   (topicCache_get init (or_str (Some ''t'') []) = None \<and>
    openalex_adapter offline (or_str (Some ''t'') []) = [] \<and>
    arxiv_adapter offline (or_str (Some ''t'') []) = [] \<and>
    semantic_adapter offline (or_str (Some ''t'') []) = [] \<and>
    fetchSpringer None (springer_api offline) (or_str (Some ''t'') []) = []) \<and>
   snd (papers_route None
      (sample_world [Some (sample_work ''x'' 2020 0), Some (sample_work ''y'' 2024 0)] []) 2027
      (run None (fst (papers_route None offline 2026 init (Some ''t'')))
         [GetPapers (sample_world [Some (sample_work ''x'' 2020 0)] []) 2026 (Some ''u''),
          GetRelated (Some ''0'')])
      (Some ''t'')) = ([], Papers [])"
proof -
  have h: "topicCache_get init (or_str (Some ''t'') []) = None \<and>
    openalex_adapter offline (or_str (Some ''t'') []) = [] \<and>
    arxiv_adapter offline (or_str (Some ''t'') []) = [] \<and>
    semantic_adapter offline (or_str (Some ''t'') []) = [] \<and>
    fetchSpringer None (springer_api offline) (or_str (Some ''t'') []) = []"
    using init_miss offline_adapters by simp
  from empty_result_memoized [OF wf_init, of None
      "sample_world [Some (sample_work ''x'' 2020 0), Some (sample_work ''y'' 2024 0)] []" 2027
      offline 2026 "Some ''t''"
      "[GetPapers (sample_world [Some (sample_work ''x'' 2020 0)] []) 2026 (Some ''u''),
        GetRelated (Some ''0'')]"] h
  show ?thesis using wf_init by simp
qed

end
